theory Spec2Isabelle
  imports Complex_Main
begin

section \<open>Python strings\<close>

text \<open>
  A Python \<^verbatim>\<open>str\<close> is a sequence of code points. The model represents a code point below
  256 by one \<^typ>\<open>char\<close> (its Latin-1 value); strings holding a code point from 256 on are
  outside the model. The character classes below are Python's own on that range:
  \<^verbatim>\<open>str.isspace\<close>, \<^verbatim>\<open>str.isdigit\<close>, the decimal digits that \<^verbatim>\<open>int()\<close> and the regular
  expression class \<^verbatim>\<open>\d\<close> accept, and the alphanumerics of the class \<^verbatim>\<open>\w\<close>.
\<close>

definition cp :: "char \<Rightarrow> nat" where
  "cp c = of_char c"

definition is_space :: "char \<Rightarrow> bool" where
  "is_space c = (let n = cp c in (9 \<le> n \<and> n \<le> 13) \<or> (28 \<le> n \<and> n \<le> 32) \<or> n = 133 \<or> n = 160)"

definition is_decimal :: "char \<Rightarrow> bool" where
  "is_decimal c = (let n = cp c in 48 \<le> n \<and> n \<le> 57)"

text \<open>\<^verbatim>\<open>str.isdigit\<close> also accepts the superscript digits U+00B2, U+00B3 and U+00B9.\<close>

definition is_digit :: "char \<Rightarrow> bool" where
  "is_digit c = (let n = cp c in (48 \<le> n \<and> n \<le> 57) \<or> n = 178 \<or> n = 179 \<or> n = 185)"

definition is_ascii_upper :: "char \<Rightarrow> bool" where
  "is_ascii_upper c = (let n = cp c in 65 \<le> n \<and> n \<le> 90)"

definition is_ascii_lower :: "char \<Rightarrow> bool" where
  "is_ascii_lower c = (let n = cp c in 97 \<le> n \<and> n \<le> 122)"

definition is_word :: "char \<Rightarrow> bool" where
  "is_word c = (let n = cp c in
     (48 \<le> n \<and> n \<le> 57) \<or> (65 \<le> n \<and> n \<le> 90) \<or> (97 \<le> n \<and> n \<le> 122) \<or> n = 95 \<or>
     n = 170 \<or> n = 178 \<or> n = 179 \<or> n = 181 \<or> n = 185 \<or> n = 186 \<or>
     (188 \<le> n \<and> n \<le> 190) \<or> (192 \<le> n \<and> n \<le> 214) \<or> (216 \<le> n \<and> n \<le> 246) \<or>
     (248 \<le> n \<and> n \<le> 255))"

text \<open>\<^verbatim>\<open>str.lower\<close>, one character: the ASCII capitals and the Latin-1 capitals U+00C0 to
  U+00DE (the multiplication sign U+00D7 apart) move up by 32.\<close>

definition lower_char :: "char \<Rightarrow> char" where
  "lower_char c = (let n = cp c in
     if (65 \<le> n \<and> n \<le> 90) \<or> (192 \<le> n \<and> n \<le> 222 \<and> n \<noteq> 215) then char_of (n + 32) else c)"

definition py_lower :: "string \<Rightarrow> string" where
  "py_lower s = map lower_char s"

definition py_lstrip :: "string \<Rightarrow> string" where
  "py_lstrip s = dropWhile is_space s"

definition py_rstrip :: "string \<Rightarrow> string" where
  "py_rstrip s = rev (dropWhile is_space (rev s))"

definition py_strip :: "string \<Rightarrow> string" where
  "py_strip s = py_lstrip (py_rstrip s)"

text \<open>\<^verbatim>\<open>s.rstrip(ch)\<close> and \<^verbatim>\<open>s.strip(ch)\<close> for a one-character argument.\<close>

definition rstrip_char :: "char \<Rightarrow> string \<Rightarrow> string" where
  "rstrip_char ch s = rev (dropWhile (\<lambda>c. c = ch) (rev s))"

definition strip_char :: "char \<Rightarrow> string \<Rightarrow> string" where
  "strip_char ch s = dropWhile (\<lambda>c. c = ch) (rstrip_char ch s)"

fun startswith :: "string \<Rightarrow> string \<Rightarrow> bool" where
  "startswith s [] = True"
| "startswith [] (p # ps) = False"
| "startswith (c # cs) (p # ps) = (c = p \<and> startswith cs ps)"

definition endswith :: "string \<Rightarrow> string \<Rightarrow> bool" where
  "endswith s p = startswith (rev s) (rev p)"

text \<open>\<^verbatim>\<open>p in s\<close> for strings.\<close>

fun contains :: "string \<Rightarrow> string \<Rightarrow> bool" where
  "contains [] p = (p = [])"
| "contains (c # cs) p = (startswith (c # cs) p \<or> contains cs p)"

text \<open>\<^verbatim>\<open>s.split(ch)\<close> for a one-character separator: every occurrence splits, empty parts
  are kept.\<close>

fun split_char :: "char \<Rightarrow> string \<Rightarrow> string list" where
  "split_char ch [] = [[]]"
| "split_char ch (c # cs) =
     (if c = ch then [] # split_char ch cs
      else (case split_char ch cs of p # ps \<Rightarrow> (c # p) # ps | [] \<Rightarrow> [[c]]))"

text \<open>\<^verbatim>\<open>s.split(ch, 1)\<close>: at most one split, at the first occurrence.\<close>

definition split_first :: "char \<Rightarrow> string \<Rightarrow> string list" where
  "split_first ch s =
     (if ch \<in> set s then [takeWhile (\<lambda>c. c \<noteq> ch) s, tl (dropWhile (\<lambda>c. c \<noteq> ch) s)] else [s])"

definition py_isdigit :: "string \<Rightarrow> bool" where
  "py_isdigit s = (s \<noteq> [] \<and> list_all is_digit s)"

text \<open>
  Exceptions are values. \<^verbatim>\<open>int(s)\<close> is only ever called on a string of digit characters
  (after \<^verbatim>\<open>isdigit\<close>, or on the text of a \<^verbatim>\<open>\d+\<close> group); there it returns the decimal
  value when every character is a decimal digit and raises \<^verbatim>\<open>ValueError\<close> on a superscript
  digit. Python's integers are unbounded, so the value is an \<^typ>\<open>int\<close>; the interpreter's
  configurable cap on the length of a converted literal is not modelled.
\<close>

datatype py_error = ValueError | IndexError | KeyError

definition digit_val :: "char \<Rightarrow> int" where
  "digit_val c = int (cp c) - 48"

definition decimal_value :: "string \<Rightarrow> int" where
  "decimal_value s = foldl (\<lambda>acc c. 10 * acc + digit_val c) 0 s"

definition py_int :: "string \<Rightarrow> py_error + int" where
  "py_int s = (if s \<noteq> [] \<and> list_all is_decimal s then Inr (decimal_value s) else Inl ValueError)"

section \<open>Regular expressions\<close>

text \<open>
  The patterns of the source are transcribed into the datatype \<open>rx\<close> and run by a
  backtracking matcher that follows Python's \<^verbatim>\<open>re\<close> module: alternatives are tried left to
  right, a greedy repetition tries the longest iteration count first and a lazy one the
  shortest, and the first complete match in that order is the match. A matcher state is the
  character preceding the position (\<open>None\<close> at the start of the string), the text still to
  read, and the groups captured so far. \<open>ms r st\<close> lists every state in which a match of
  \<open>r\<close> from \<open>st\<close> can end, in the order the backtracking search reaches them.
\<close>

datatype rx =
    Eps
  | Sym "char \<Rightarrow> bool"
  | Cat rx rx
  | Alt rx rx
  | Rep rx
  | RepL rx
  | Grp nat rx
  | Bol
  | Eol
  | WordB
  | Look rx

type_synonym mstate = "char option \<times> string \<times> (nat \<times> string) list"

definition word_opt :: "char option \<Rightarrow> bool" where
  "word_opt p = (case p of None \<Rightarrow> False | Some c \<Rightarrow> is_word c)"

text \<open>An iteration of a repetition must consume input; the remaining length bounds the
  number of iterations.\<close>

fun rep_greedy :: "(mstate \<Rightarrow> mstate list) \<Rightarrow> nat \<Rightarrow> mstate \<Rightarrow> mstate list" where
  "rep_greedy f 0 st = [st]"
| "rep_greedy f (Suc n) st =
     concat (map (\<lambda>st'. if length (fst (snd st')) < length (fst (snd st))
                          then rep_greedy f n st' else []) (f st)) @ [st]"

fun rep_lazy :: "(mstate \<Rightarrow> mstate list) \<Rightarrow> nat \<Rightarrow> mstate \<Rightarrow> mstate list" where
  "rep_lazy f 0 st = [st]"
| "rep_lazy f (Suc n) st =
     st # concat (map (\<lambda>st'. if length (fst (snd st')) < length (fst (snd st))
                               then rep_lazy f n st' else []) (f st))"

definition set_group :: "nat \<Rightarrow> string \<Rightarrow> mstate \<Rightarrow> mstate" where
  "set_group n txt st =
     (case st of (p, rest, caps) \<Rightarrow>
        (p, rest, (n, take (length txt - length rest) txt) # caps))"

primrec ms :: "rx \<Rightarrow> mstate \<Rightarrow> mstate list" where
  "ms Eps st = [st]"
| "ms (Sym f) st =
     (case fst (snd st) of
        [] \<Rightarrow> []
      | c # cs \<Rightarrow> if f c then [(Some c, cs, snd (snd st))] else [])"
| "ms (Cat a b) st = concat (map (ms b) (ms a st))"
| "ms (Alt a b) st = ms a st @ ms b st"
| "ms (Rep a) st = rep_greedy (ms a) (length (fst (snd st))) st"
| "ms (RepL a) st = rep_lazy (ms a) (length (fst (snd st))) st"
| "ms (Grp n a) st = map (set_group n (fst (snd st))) (ms a st)"
| "ms Bol st = (if fst st = None then [st] else [])"
| "ms Eol st = (if fst (snd st) = [] \<or> fst (snd st) = [CHR 0x0A] then [st] else [])"
| "ms WordB st =
     (if word_opt (fst st) \<noteq> word_opt (case fst (snd st) of [] \<Rightarrow> None | c # _ \<Rightarrow> Some c)
      then [st] else [])"
| "ms (Look a) st = (if ms a st = [] then [] else [st])"

text \<open>Pattern syntax: literals, classes, \<^verbatim>\<open>+\<close>, \<^verbatim>\<open>?\<close>, and their forms under
  \<^verbatim>\<open>re.IGNORECASE\<close> (a character matches a literal when their lower-case forms agree).\<close>

definition ch :: "char \<Rightarrow> rx" where
  "ch c = Sym (\<lambda>x. x = c)"

definition ich :: "char \<Rightarrow> rx" where
  "ich c = Sym (\<lambda>x. lower_char x = lower_char c)"

definition lit :: "string \<Rightarrow> rx" where
  "lit s = foldr (\<lambda>c r. Cat (ch c) r) s Eps"

definition ilit :: "string \<Rightarrow> rx" where
  "ilit s = foldr (\<lambda>c r. Cat (ich c) r) s Eps"

definition one_of :: "string \<Rightarrow> rx" where
  "one_of s = Sym (\<lambda>x. x \<in> set s)"

definition ione_of :: "string \<Rightarrow> rx" where
  "ione_of s = Sym (\<lambda>x. lower_char x \<in> set (map lower_char s))"

definition none_of :: "string \<Rightarrow> rx" where
  "none_of s = Sym (\<lambda>x. x \<notin> set s)"

definition dot :: rx where
  "dot = Sym (\<lambda>x. x \<noteq> CHR 0x0A)"

definition digit :: rx where
  "digit = Sym is_decimal"

definition space :: rx where
  "space = Sym is_space"

definition plus :: "rx \<Rightarrow> rx" where
  "plus r = Cat r (Rep r)"

definition plus_lazy :: "rx \<Rightarrow> rx" where
  "plus_lazy r = Cat r (RepL r)"

definition opt :: "rx \<Rightarrow> rx" where
  "opt r = Alt r Eps"

definition cats :: "rx list \<Rightarrow> rx" where
  "cats rs = foldr Cat rs Eps"

definition alts :: "rx \<Rightarrow> rx list \<Rightarrow> rx" where
  "alts r rs = foldl Alt r rs"

text \<open>A match object: where the match started, its text (group 0), the captured groups,
  and the state after it.\<close>

record rmatch =
  m_start :: nat
  m_text :: string
  m_groups :: "(nat \<times> string) list"
  m_prev :: "char option"
  m_rest :: string

definition group :: "rmatch \<Rightarrow> nat \<Rightarrow> string option" where
  "group m n = map_of (m_groups m) n"

definition mk_match :: "nat \<Rightarrow> string \<Rightarrow> mstate \<Rightarrow> rmatch" where
  "mk_match i s st =
     \<lparr>m_start = i, m_text = take (length s - length (fst (snd st))) s,
      m_groups = snd (snd st), m_prev = fst st, m_rest = fst (snd st)\<rparr>"

definition match_at :: "rx \<Rightarrow> nat \<Rightarrow> char option \<Rightarrow> string \<Rightarrow> rmatch option" where
  "match_at r i p s = (case ms r (p, s, []) of [] \<Rightarrow> None | st # _ \<Rightarrow> Some (mk_match i s st))"

text \<open>\<^verbatim>\<open>re.match\<close>: a match at the start of the string.\<close>

definition re_match :: "rx \<Rightarrow> string \<Rightarrow> rmatch option" where
  "re_match r s = match_at r 0 None s"

text \<open>\<^verbatim>\<open>re.search\<close>: the match at the leftmost position that has one.\<close>

fun search_from :: "rx \<Rightarrow> nat \<Rightarrow> char option \<Rightarrow> string \<Rightarrow> rmatch option" where
  "search_from r i p [] = match_at r i p []"
| "search_from r i p (c # cs) =
     (case match_at r i p (c # cs) of
        Some m \<Rightarrow> Some m
      | None \<Rightarrow> search_from r (Suc i) (Some c) cs)"

definition re_search :: "rx \<Rightarrow> string \<Rightarrow> rmatch option" where
  "re_search r s = search_from r 0 None s"

text \<open>
  \<^verbatim>\<open>re.sub\<close>: the non-overlapping matches, found left to right, are replaced by the
  template, whose items are literal text and group references. None of the substituted
  patterns of the source matches the empty string; an empty match is replaced and the
  scan moves on by one character.
\<close>

datatype titem = TLit string | TGrp nat

definition expand :: "titem list \<Rightarrow> rmatch \<Rightarrow> string" where
  "expand t m =
     concat (map (\<lambda>it. case it of TLit s \<Rightarrow> s
                        | TGrp n \<Rightarrow> (case group m n of None \<Rightarrow> [] | Some g \<Rightarrow> g)) t)"

function sub_from :: "rx \<Rightarrow> titem list \<Rightarrow> char option \<Rightarrow> string \<Rightarrow> string" where
  "sub_from r t p s =
     (case match_at r 0 p s of
        None \<Rightarrow> (case s of [] \<Rightarrow> [] | c # cs \<Rightarrow> c # sub_from r t (Some c) cs)
      | Some m \<Rightarrow>
          if length (m_rest m) < length s
          then expand t m @ sub_from r t (m_prev m) (m_rest m)
          else expand t m @ (case s of [] \<Rightarrow> [] | c # cs \<Rightarrow> c # sub_from r t (Some c) cs))"
  by pat_completeness auto
termination
  by (relation "measure (\<lambda>(r, t, p, s). length s)") auto

definition re_sub :: "rx \<Rightarrow> titem list \<Rightarrow> string \<Rightarrow> string" where
  "re_sub r t s = sub_from r t None s"

text \<open>\<^verbatim>\<open>s.replace(old, new)\<close>: the non-overlapping occurrences of \<open>old\<close>, left to right.\<close>

function replace_all :: "string \<Rightarrow> string \<Rightarrow> string \<Rightarrow> string" where
  "replace_all old new s =
     (if old = [] then s
      else if startswith s old then new @ replace_all old new (drop (length old) s)
      else (case s of [] \<Rightarrow> [] | c # cs \<Rightarrow> c # replace_all old new cs))"
  by pat_completeness auto
termination
  by (relation "measure (\<lambda>(old, new, s). length s)") (auto elim: startswith.elims)

section \<open>Accuracy, strength and toughness values\<close>

text \<open>A parsed value is a Python \<^verbatim>\<open>int\<close> or \<^verbatim>\<open>str\<close>. \<^verbatim>\<open>parse_acc\<close> returns a value,
  the dictionary \<^verbatim>\<open>{"stationary": v, "moving": w}\<close>, or \<^verbatim>\<open>None\<close>; \<^verbatim>\<open>parse_strength\<close> returns
  a value, the dictionary \<^verbatim>\<open>{"normal": v, "halfRange": w}\<close>, or \<^verbatim>\<open>None\<close>.\<close>

datatype pyval = PInt int | PStr string

datatype accuracy = Acc pyval | AccPair (stationary: pyval) (moving: pyval)

datatype strength = Str pyval | StrPair (normal: pyval) (halfRange: pyval)

text \<open>The body of the loop over the parts of a slash-joined accuracy: the value to append,
  or \<open>None\<close> where the source returns \<^verbatim>\<open>None\<close> from the whole function.\<close>

definition acc_part :: "string \<Rightarrow> py_error + pyval option" where
  "acc_part part0 =
     (let part = py_strip part0 in
      if py_lower part \<in> set [''xx'', ''x''] then Inr (Some (PStr ''xx''))
      else if part = ''++'' then Inr (Some (PStr ''++''))
      else if part = ''*'' then Inr (Some (PStr ''*''))
      else
        (let part = rstrip_char CHR ''+'' part in
         if py_isdigit part
         then (case py_int part of Inl e \<Rightarrow> Inl e | Inr n \<Rightarrow> Inr (Some (PInt n)))
         else Inr None))"

fun acc_parts :: "string list \<Rightarrow> pyval list \<Rightarrow> py_error + pyval list option" where
  "acc_parts [] parsed = Inr (Some parsed)"
| "acc_parts (part # parts) parsed =
     (case acc_part part of
        Inl e \<Rightarrow> Inl e
      | Inr None \<Rightarrow> Inr None
      | Inr (Some v) \<Rightarrow> acc_parts parts (parsed @ [v]))"

definition parse_acc :: "string \<Rightarrow> py_error + accuracy option" where
  "parse_acc acc0 =
     (let acc = py_strip acc0 in
      if acc = [] then Inr None
      else if py_lower acc \<in> set [''xx'', ''x''] then Inr (Some (Acc (PStr ''xx'')))
      else if acc = ''++'' then Inr (Some (Acc (PStr ''++'')))
      else if acc = ''*'' then Inr (Some (Acc (PStr ''*'')))
      else if CHR ''/'' \<in> set acc then
        (case acc_parts (split_char CHR ''/'' acc) [] of
           Inl e \<Rightarrow> Inl e
         | Inr None \<Rightarrow> Inr None
         | Inr (Some parsed) \<Rightarrow>
             if length parsed = 2 then Inr (Some (AccPair (parsed ! 0) (parsed ! 1)))
             else if length parsed = 1 then Inr (Some (Acc (parsed ! 0)))
             else Inr None)
      else
        (let acc = (if endswith acc ''+'' then rstrip_char CHR ''+'' acc else acc) in
         if py_isdigit acc
         then (case py_int acc of Inl e \<Rightarrow> Inl e | Inr n \<Rightarrow> Inr (Some (Acc (PInt n))))
         else Inr None))"

text \<open>The dice notation \<^verbatim>\<open>^\[D(\d+)\]$\<close>.\<close>

definition DICE_RE :: rx where
  "DICE_RE = cats [Bol, ch CHR ''['', ch CHR ''D'', Grp 1 (plus digit), ch CHR '']'', Eol]"

definition str_part :: "string \<Rightarrow> py_error + pyval option" where
  "str_part part0 =
     (let part = rstrip_char CHR ''+'' (py_strip part0) in
      if py_isdigit part
      then (case py_int part of Inl e \<Rightarrow> Inl e | Inr n \<Rightarrow> Inr (Some (PInt n)))
      else if endswith part ''+'' then Inr (Some (PStr part))
      else Inr None)"

fun str_parts :: "string list \<Rightarrow> pyval list \<Rightarrow> py_error + pyval list option" where
  "str_parts [] parsed = Inr (Some parsed)"
| "str_parts (part # parts) parsed =
     (case str_part part of
        Inl e \<Rightarrow> Inl e
      | Inr None \<Rightarrow> Inr None
      | Inr (Some v) \<Rightarrow> str_parts parts (parsed @ [v]))"

definition parse_strength :: "string \<Rightarrow> py_error + strength option" where
  "parse_strength sv0 =
     (if sv0 = [] then Inr None
      else
        (let sv = py_strip sv0 in
         if re_match DICE_RE sv \<noteq> None then Inr (Some (Str (PStr sv)))
         else if CHR ''/'' \<in> set sv then
           (case str_parts (split_char CHR ''/'' sv) [] of
              Inl e \<Rightarrow> Inl e
            | Inr None \<Rightarrow> Inr None
            | Inr (Some parsed) \<Rightarrow>
                if length parsed = 2 then Inr (Some (StrPair (parsed ! 0) (parsed ! 1)))
                else if length parsed = 1 then Inr (Some (Str (parsed ! 0)))
                else Inr None)
         else if endswith sv ''+'' then Inr (Some (Str (PStr sv)))
         else if py_isdigit sv
         then (case py_int sv of Inl e \<Rightarrow> Inl e | Inr n \<Rightarrow> Inr (Some (Str (PInt n))))
         else Inr None))"

text \<open>\<^verbatim>\<open>parse_toughness_value\<close>: \<^verbatim>\<open>None\<close> for a blank string, the string itself for a
  modifier such as \<^verbatim>\<open>1-\<close> or for anything that is not a number.\<close>

definition parse_toughness_value :: "string \<Rightarrow> py_error + pyval option" where
  "parse_toughness_value t0 =
     (let t = py_strip t0 in
      if t = [] then Inr None
      else if endswith t ''-'' \<or> endswith t ''+'' then Inr (Some (PStr t))
      else if py_isdigit t
      then (case py_int t of Inl e \<Rightarrow> Inl e | Inr n \<Rightarrow> Inr (Some (PInt n)))
      else Inr (Some (PStr t)))"

section \<open>Line aligner\<close>

text \<open>The dataclass \<^verbatim>\<open>LineBox\<close>: a line of text with formatting information.\<close>

record LineBox =
  text' :: string
  is_bold :: bool
  is_italic :: bool

text \<open>\<^verbatim>\<open>normalize_for_matching\<close>: punctuation removed (\<^verbatim>\<open>[^\w\s]\<close>), runs of white space
  collapsed (\<^verbatim>\<open>\s+\<close>), stripped, lower case.\<close>

definition normalize_for_matching :: "string \<Rightarrow> string" where
  "normalize_for_matching t0 =
     (let t1 = re_sub (Sym (\<lambda>c. \<not> is_word c \<and> \<not> is_space c)) [] t0;
          t2 = re_sub (plus space) [TLit '' ''] t1
      in py_lower (py_strip t2))"

text \<open>
  The similarity \<^verbatim>\<open>SequenceMatcher(None, a, b).ratio()\<close> comes from Python's \<^verbatim>\<open>difflib\<close>;
  it is a parameter \<open>ratio\<close> of the model. Its value is twice a number of matched
  characters over the two lengths together, and the comparison with \<^verbatim>\<open>0.6\<close> on the
  floating-point quotient agrees with the comparison of the exact quotient with 6/10 for
  every pair of strings that fits in memory, so the model compares real numbers.

  The inner loop over the PDF lines keeps the best ratio so far, with the line and index
  that reached it; a line whose index is already used is skipped, and only a strictly
  larger ratio replaces the best one.
\<close>

fun best_loop ::
  "(string \<Rightarrow> string \<Rightarrow> real) \<Rightarrow> string \<Rightarrow> nat set \<Rightarrow> (nat \<times> LineBox) list \<Rightarrow>
   real \<times> (LineBox \<times> nat) option \<Rightarrow> real \<times> (LineBox \<times> nat) option" where
  "best_loop ratio norm_ocr used [] best = best"
| "best_loop ratio norm_ocr used ((pdf_idx, pdf_box) # rest) (best_ratio, best_match) =
     (if pdf_idx \<in> used then best_loop ratio norm_ocr used rest (best_ratio, best_match)
      else
        (let norm_pdf = normalize_for_matching (text' pdf_box);
             r = ratio norm_ocr norm_pdf
         in if r > best_ratio
            then best_loop ratio norm_ocr used rest (r, Some (pdf_box, pdf_idx))
            else best_loop ratio norm_ocr used rest (best_ratio, best_match)))"

text \<open>One iteration of the loop over the OCR lines: the index of the PDF line it consumes,
  if any, and the line box it appends to the result.\<close>

definition match_step ::
  "(string \<Rightarrow> string \<Rightarrow> real) \<Rightarrow> LineBox list \<Rightarrow> nat set \<Rightarrow> string \<Rightarrow> nat option \<times> LineBox" where
  "match_step ratio pdf_line_boxes used ocr_line =
     (if py_strip ocr_line = []
      then (None, \<lparr>text' = ocr_line, is_bold = False, is_italic = False\<rparr>)
      else
        (case best_loop ratio (normalize_for_matching ocr_line) used
                (enumerate 0 pdf_line_boxes) (0, None) of
           (best_ratio, Some (best_match, best_pdf_idx)) \<Rightarrow>
             if best_ratio > 6 / 10
             then (Some best_pdf_idx,
                   \<lparr>text' = ocr_line, is_bold = is_bold best_match,
                    is_italic = is_italic best_match\<rparr>)
             else (None, \<lparr>text' = ocr_line, is_bold = False, is_italic = False\<rparr>)
         | (best_ratio, None) \<Rightarrow>
             (None, \<lparr>text' = ocr_line, is_bold = False, is_italic = False\<rparr>)))"

text \<open>The loop over the OCR lines, with the set \<^verbatim>\<open>used_pdf_indices\<close> passed along. Each
  entry of the run is the index consumed by that iteration and the line box appended.\<close>

fun match_run ::
  "(string \<Rightarrow> string \<Rightarrow> real) \<Rightarrow> LineBox list \<Rightarrow> nat set \<Rightarrow> string list \<Rightarrow>
   (nat option \<times> LineBox) list" where
  "match_run ratio pdf_line_boxes used [] = []"
| "match_run ratio pdf_line_boxes used (ocr_line # rest) =
     (case match_step ratio pdf_line_boxes used ocr_line of
        (None, box) \<Rightarrow> (None, box) # match_run ratio pdf_line_boxes used rest
      | (Some j, box) \<Rightarrow> (Some j, box) # match_run ratio pdf_line_boxes (insert j used) rest)"

definition match_ocr_to_pdf_lines ::
  "(string \<Rightarrow> string \<Rightarrow> real) \<Rightarrow> string list \<Rightarrow> LineBox list \<Rightarrow> LineBox list" where
  "match_ocr_to_pdf_lines ratio ocr_lines pdf_line_boxes =
     map snd (match_run ratio pdf_line_boxes {} ocr_lines)"

text \<open>The PDF index consumed for each OCR line (\<open>None\<close> for an unmatched line), and the
  indices consumed before the \<open>i\<close>-th OCR line.\<close>

definition consumed :: "(string \<Rightarrow> string \<Rightarrow> real) \<Rightarrow> string list \<Rightarrow> LineBox list \<Rightarrow> nat option list" where
  "consumed ratio ocr_lines pdf_line_boxes =
     map fst (match_run ratio pdf_line_boxes {} ocr_lines)"

definition consumed_before :: "nat option list \<Rightarrow> nat \<Rightarrow> nat set" where
  "consumed_before js i = {j. \<exists>k<i. k < length js \<and> js ! k = Some j}"

text \<open>The similarity of the \<open>i\<close>-th OCR line and the \<open>k\<close>-th PDF line.\<close>

definition similarity ::
  "(string \<Rightarrow> string \<Rightarrow> real) \<Rightarrow> string list \<Rightarrow> LineBox list \<Rightarrow> nat \<Rightarrow> nat \<Rightarrow> real" where
  "similarity ratio ocr_lines pdf_line_boxes i k =
     ratio (normalize_for_matching (ocr_lines ! i))
           (normalize_for_matching (text' (pdf_line_boxes ! k)))"

text \<open>\<open>first_best sim used n j\<close>: among the \<open>n\<close> PDF lines, \<open>j\<close> is the
  maximum-similarity candidate not yet consumed, the first one where several reach the
  maximum.\<close>

definition first_best :: "(nat \<Rightarrow> real) \<Rightarrow> nat set \<Rightarrow> nat \<Rightarrow> nat \<Rightarrow> bool" where
  "first_best sim used n j \<longleftrightarrow>
     j < n \<and> j \<notin> used \<and> (\<forall>k<n. k \<notin> used \<longrightarrow> sim k \<le> sim j) \<and> (\<forall>k<j. k \<notin> used \<longrightarrow> sim k < sim j)"

text \<open>What the inner loop has computed when it ends, and what one iteration of the outer
  loop does.\<close>

definition best_post ::
  "(LineBox \<Rightarrow> real) \<Rightarrow> nat set \<Rightarrow> nat \<Rightarrow> LineBox list \<Rightarrow> real \<Rightarrow> (LineBox \<times> nat) option \<Rightarrow>
   real \<Rightarrow> (LineBox \<times> nat) option \<Rightarrow> bool" where
  "best_post f used n xs br bm br' bm' \<longleftrightarrow>
     ((\<forall>k<length xs. n + k \<notin> used \<longrightarrow> f (xs ! k) \<le> br) \<and> br' = br \<and> bm' = bm) \<or>
     (\<exists>k<length xs. bm' = Some (xs ! k, n + k) \<and> n + k \<notin> used \<and> f (xs ! k) = br' \<and> br < br'
             \<and> (\<forall>k'<k. n + k' \<notin> used \<longrightarrow> f (xs ! k') < br')
             \<and> (\<forall>k'<length xs. n + k' \<notin> used \<longrightarrow> f (xs ! k') \<le> br'))"

definition step_post ::
  "(string \<Rightarrow> string \<Rightarrow> real) \<Rightarrow> LineBox list \<Rightarrow> nat set \<Rightarrow> string \<Rightarrow> nat option \<times> LineBox \<Rightarrow> bool" where
  "step_post ratio pdf used l r \<longleftrightarrow>
     (let sim = (\<lambda>k. ratio (normalize_for_matching l) (normalize_for_matching (text' (pdf ! k))));
          box = snd r
      in text' box = l \<and>
         (case fst r of
            Some j \<Rightarrow> py_strip l \<noteq> [] \<and> first_best sim used (length pdf) j \<and> sim j > 6 / 10
                      \<and> is_bold box = is_bold (pdf ! j) \<and> is_italic box = is_italic (pdf ! j)
          | None \<Rightarrow> \<not> is_bold box \<and> \<not> is_italic box
                    \<and> (py_strip l = [] \<or> (\<forall>k<length pdf. k \<notin> used \<longrightarrow> sim k \<le> 6 / 10))))"

text \<open>A similarity and two line lists to run the aligner on.\<close>

definition exact_ratio :: "string \<Rightarrow> string \<Rightarrow> real" where
  "exact_ratio a b = (if a = b then 1 else 0)"

definition ocr_example :: "string list" where
  "ocr_example = [''Fearless,'', ''  '', ''6G1 Rifle'', ''Fearless'']"

definition pdf_example :: "LineBox list" where
  "pdf_example = [\<lparr>text' = ''6G1  rifle'', is_bold = False, is_italic = False\<rparr>,
                  \<lparr>text' = ''Fearless'', is_bold = False, is_italic = True\<rparr>]"

section \<open>Unit and weapon records\<close>

text \<open>
  The dictionaries that \<^verbatim>\<open>parse_card_text\<close> builds, as records. A key that is only present
  in some dictionaries is an \<open>option\<close> field (\<open>None\<close>: the key is absent). The value of
  \<^verbatim>\<open>ammo\<close> can itself be Python's \<^verbatim>\<open>None\<close>, so that field is an option of an option.
  Toughness is a single value or the dictionary of front, side and rear; each value is
  what \<^verbatim>\<open>parse_toughness_value\<close> returned.
\<close>

datatype toughness =
    Toughness "pyval option"
  | Directional (front: "pyval option") (side: "pyval option") (rear: "pyval option")

record stats =
  movement :: int
  quality :: pyval
  height :: "int option"
  spottingDistance :: "int option"
  command :: "int option"
  evasion :: "int option"
  toughness :: "toughness option"

record shot_type =
  s_name :: string
  s_target :: string
  s_range :: int
  s_accuracy :: accuracy
  s_strength :: "strength option"
  s_dice :: int
  s_specialRules :: "string list option"

record weapon =
  w_name :: string
  w_target :: string
  w_range :: int
  w_accuracy :: accuracy
  w_dice :: int
  w_strength :: "strength option"
  w_ammo :: "int option option"
  w_specialRules :: "string list option"
  w_shotTypes :: "shot_type list option"

record unit_record =
  id' :: string
  name :: string
  unitClass :: string
  points :: pyval
  unit_stats :: stats
  descriptiveCategory :: "string option"
  specialRules :: "string list"
  description :: "string option"
  weapons :: "weapon list option"
  category :: "string option"
  subcategory :: "string option"

section \<open>Slugs and the final de-duplication\<close>

text \<open>
  \<^verbatim>\<open>unicodedata.normalize('NFKD', s)\<close> followed by \<^verbatim>\<open>encode('ascii', 'ignore')\<close>, one
  character: an ASCII character stays; a Latin-1 character leaves the ASCII characters of
  its compatibility decomposition (the base letter of an accented letter, the digits of a
  superscript or a fraction, a space for a spacing accent), or nothing. The table is
  Unicode's, for U+0080 to U+00FF.
\<close>

definition nfkd_ascii :: "char \<Rightarrow> string" where
  "nfkd_ascii c = (let n = cp c in
     if n < 128 then [c]
     else if n = 160 \<or> n = 168 \<or> n = 175 \<or> n = 180 \<or> n = 184 then '' ''
     else if n = 170 then ''a''
     else if n = 178 then ''2''
     else if n = 179 then ''3''
     else if n = 185 then ''1''
     else if n = 186 then ''o''
     else if n = 188 then ''14''
     else if n = 189 then ''12''
     else if n = 190 then ''34''
     else if 192 \<le> n \<and> n \<le> 197 then ''A''
     else if n = 199 then ''C''
     else if 200 \<le> n \<and> n \<le> 203 then ''E''
     else if 204 \<le> n \<and> n \<le> 207 then ''I''
     else if n = 209 then ''N''
     else if 210 \<le> n \<and> n \<le> 214 then ''O''
     else if 217 \<le> n \<and> n \<le> 220 then ''U''
     else if n = 221 then ''Y''
     else if 224 \<le> n \<and> n \<le> 229 then ''a''
     else if n = 231 then ''c''
     else if 232 \<le> n \<and> n \<le> 235 then ''e''
     else if 236 \<le> n \<and> n \<le> 239 then ''i''
     else if n = 241 then ''n''
     else if 242 \<le> n \<and> n \<le> 246 then ''o''
     else if 249 \<le> n \<and> n \<le> 252 then ''u''
     else if n = 253 \<or> n = 255 then ''y''
     else [])"

definition is_ascii_alnum :: "char \<Rightarrow> bool" where
  "is_ascii_alnum c = (is_decimal c \<or> is_ascii_upper c \<or> is_ascii_lower c)"

text \<open>The class \<^verbatim>\<open>[^a-z0-9]\<close>.\<close>

definition not_slug_char :: "char \<Rightarrow> bool" where
  "not_slug_char c = (\<not> (is_ascii_lower c \<or> is_decimal c))"

definition slugify :: "string \<Rightarrow> string" where
  "slugify s0 =
     (let s = concat (map nfkd_ascii s0);
          s = py_lower s;
          s = re_sub (plus (Sym not_slug_char)) [TLit ''-''] s;
          s = strip_char CHR ''-'' s
      in s)"

text \<open>The last loop of \<^verbatim>\<open>extract_units_from_qur_ocr\<close>: a unit whose id is empty or already
  seen is skipped. \<open>seen\<close> is the set of ids kept so far, \<open>out\<close> the list so far.\<close>

fun dedupe_loop :: "unit_record list \<Rightarrow> string set \<Rightarrow> unit_record list \<Rightarrow> unit_record list" where
  "dedupe_loop [] seen out = out"
| "dedupe_loop (u # units) seen out =
     (let uid = id' u in
      if uid = [] \<or> uid \<in> seen then dedupe_loop units seen out
      else dedupe_loop units (insert uid seen) (out @ [u]))"

definition dedupe_units :: "unit_record list \<Rightarrow> unit_record list" where
  "dedupe_units units = dedupe_loop units {} []"

text \<open>A unit record with a given id and name, to run the de-duplication on.\<close>

definition example_unit :: "string \<Rightarrow> string \<Rightarrow> unit_record" where
  "example_unit i n =
     \<lparr>id' = i, name = n, unitClass = ''Inf'', points = PInt 10,
      unit_stats = \<lparr>movement = 4, quality = PInt 3, height = None, spottingDistance = None,
                    command = None, evasion = None, toughness = None\<rparr>,
      descriptiveCategory = None, specialRules = [], description = None, weapons = None,
      category = Some ''Infantry'', subcategory = None\<rparr>"

section \<open>Line-level OCR error corrector\<close>

text \<open>\<^verbatim>\<open>fix_ocr_errors_contextual\<close>: the substitutions of the source, in its order. The
  double quote is the character 0x22.\<close>

definition dq :: char where
  "dq = CHR 0x22"

definition fix_ocr_errors_contextual :: "string \<Rightarrow> string" where
  "fix_ocr_errors_contextual line0 =
     (let line = re_sub (cats [ch CHR ''$'', Grp 1 (plus digit), ch dq])
                        [TLit ''S'', TGrp 1, TLit [dq]] line0;
          line = re_sub (cats [ch CHR ''$'', Grp 1 (plus digit), ch CHR ''/''])
                        [TLit ''S'', TGrp 1, TLit ''/''] line;
          line = re_sub (cats [ch CHR '','', Rep space, ch CHR ''$'', Grp 1 (plus digit)])
                        [TLit '', S'', TGrp 1] line;
          line = re_sub (cats [WordB, ch CHR ''H'', Grp 1 (plus digit)]) [TLit ''H'', TGrp 1] line;
          line = re_sub (cats [WordB, ch CHR ''S'', Grp 1 (plus digit), ch dq])
                        [TLit ''S'', TGrp 1, TLit [dq]] line;
          line = re_sub (cats [WordB, ch CHR ''M'', Grp 1 (plus digit), ch dq])
                        [TLit ''M'', TGrp 1, TLit [dq]] line;
          line = re_sub (cats [WordB, ch CHR ''Q'', Grp 1 (plus digit)]) [TLit ''Q'', TGrp 1] line;
          line = re_sub (cats [WordB, ch CHR ''C'', Grp 1 (plus digit)]) [TLit ''C'', TGrp 1] line;
          line = re_sub (cats [WordB, lit ''El'', WordB]) [TLit ''E4''] line;
          line = re_sub (cats [WordB, lit ''EO'', WordB]) [TLit ''E0''] line;
          line = re_sub (cats [WordB, ch CHR ''E'', Grp 1 (one_of ''lO'')]) [TLit ''E'', TGrp 1] line;
          line = re_sub (cats [WordB, ch CHR ''R'', Grp 1 (plus digit), ch dq])
                        [TLit ''R'', TGrp 1, TLit [dq]] line;
          line = re_sub (cats [WordB, ch CHR ''A'', Grp 1 (plus digit)]) [TLit ''A'', TGrp 1] line;
          line = re_sub (cats [WordB, ch CHR ''D'', Grp 1 (plus digit)]) [TLit ''D'', TGrp 1] line;
          line = re_sub (lit (''Reo'' @ [dq])) [TLit (''R40'' @ [dq])] line;
          line = re_sub (lit (''R4o'' @ [dq])) [TLit (''R40'' @ [dq])] line;
          line = re_sub (lit (''Re'' @ [dq])) [TLit (''R40'' @ [dq])] line;
          line = re_sub (lit (''Ro'' @ [dq])) [TLit (''R0'' @ [dq])] line;
          line = replace_all '' Vec '' '' Vec '' line;
          line = replace_all '' lnf '' '' Inf '' line;
          line = replace_all '' Alr '' '' Air '' line;
          line = re_sub (cats [Grp 1 (plus digit), Rep space, ich CHR ''p'', ione_of ''t|l'',
                               ich CHR ''s'', WordB])
                        [TGrp 1, TLit '' pts''] line;
          line = re_sub (cats [Grp 1 (alts (lit ''Inf'') [lit ''Vec'', lit ''Air'']), plus space,
                               ch CHR ''('',
                               Grp 2 (alts (plus (one_of ''SWCML'')) [lit ''CAP'', lit ''CAS'']),
                               ch CHR '')''])
                        [TGrp 1, TLit ''('', TGrp 2, TLit '')''] line
      in line)"

section \<open>Card parsing: patterns\<close>

text \<open>
  \<^verbatim>\<open>norm\<close> replaces the curly quotes U+2018, U+2019, U+201C and U+201D by straight quotes.
  These code points lie outside the strings of the model, on which it changes nothing.
\<close>

definition norm' :: "string \<Rightarrow> string" where
  "norm' s = s"

definition upper_letter :: rx where
  "upper_letter = Sym is_ascii_upper"

definition lower_letter :: rx where
  "lower_letter = Sym is_ascii_lower"

definition letter :: rx where
  "letter = Sym (\<lambda>c. is_ascii_upper c \<or> is_ascii_lower c)"

definition non_space :: rx where
  "non_space = Sym (\<lambda>c. \<not> is_space c)"

text \<open>The fragments \<^verbatim>\<open>\s*,?\s*\<close> and \<^verbatim>\<open>\s*,\s*\<close>.\<close>

definition opt_comma :: rx where
  "opt_comma = cats [Rep space, opt (ch CHR '',''), Rep space]"

definition comma_sep :: rx where
  "comma_sep = cats [Rep space, ch CHR '','', Rep space]"

text \<open>\<^verbatim>\<open>HEADER_RE\<close>, with \<^verbatim>\<open>re.IGNORECASE\<close>; group 1 is \<^verbatim>\<open>name\<close>, group 2 is \<^verbatim>\<open>pts\<close>.\<close>

definition points_token :: rx where
  "points_token = Cat (plus digit) (opt (Cat (ch CHR ''/'') (plus digit)))"

definition HEADER_RE :: rx where
  "HEADER_RE = cats [Bol, Grp 1 (plus_lazy dot), Rep space, ch CHR ''-'', Rep space,
     Grp 2 points_token, Rep space, ilit ''pts'', Eol]"

text \<open>The patterns of the three split header forms: a number before \<^verbatim>\<open>pts\<close> (searched,
  ignoring case); a dash, the points and \<^verbatim>\<open>pts\<close> on one line (ignoring case); a name, a
  dash and the points on one line.\<close>

definition PTS_RE :: rx where
  "PTS_RE = cats [Grp 1 (plus digit), Rep space, ilit ''pts'']"

definition DASH_PTS_RE :: rx where
  "DASH_PTS_RE = cats [Bol, Rep space, ch CHR ''-'', Rep space, Grp 1 points_token, Rep space,
     ilit ''pts'', Rep space, Eol]"

definition NAME_PTS_RE :: rx where
  "NAME_PTS_RE = cats [Bol, Grp 1 (plus_lazy dot), Rep space, ch CHR ''-'', Rep space,
     Grp 2 points_token, Rep space, Eol]"

text \<open>\<^verbatim>\<open>STAT_RE\<close>, with \<^verbatim>\<open>re.IGNORECASE\<close>. Groups: 1 \<^verbatim>\<open>unitType\<close>, 2 \<^verbatim>\<open>classFlag\<close>,
  3 \<^verbatim>\<open>height\<close>, 4 \<^verbatim>\<open>spot\<close>, 5 \<^verbatim>\<open>move\<close>, 6 \<^verbatim>\<open>quality\<close>, 7 \<^verbatim>\<open>tfront\<close>, 8 \<^verbatim>\<open>tside\<close>,
  9 \<^verbatim>\<open>trear\<close>, 10 \<^verbatim>\<open>evasion\<close>, 11 \<^verbatim>\<open>command\<close>, 12 \<^verbatim>\<open>tail\<close>.\<close>

definition unit_type_token :: rx where
  "unit_type_token = alts (ilit ''Inf'') [ilit ''Vec'', ilit ''Air'']"

definition STAT_RE :: rx where
  "STAT_RE = cats [Bol,
     Grp 1 unit_type_token,
     opt (cats [Rep space, ch CHR ''('',
                Grp 2 (alts (plus (ione_of ''SWCMLH'')) [ilit ''CAP'', ilit ''CAS'']),
                ch CHR '')'']),
     opt comma_sep,
     opt (Cat (ich CHR ''H'') (Grp 3 (plus digit))),
     opt comma_sep,
     opt (cats [ione_of ''S$'', Grp 4 (plus digit), ch dq]),
     opt comma_sep,
     ich CHR ''M'', Grp 5 (Alt (plus digit) (ich CHR ''O'')), ch dq,
     opt comma_sep,
     ich CHR ''Q'', Grp 6 (Alt (plus digit) (ch CHR ''*'')),
     opt (cats [comma_sep, ich CHR ''T'', Grp 7 (plus (none_of ''/,'')),
                opt (cats [ch CHR ''/'', Grp 8 (plus (none_of ''/,'')), ch CHR ''/'',
                           Grp 9 (plus (Sym (\<lambda>c. c \<noteq> CHR '','' \<and> \<not> is_space c)))])]),
     opt (cats [comma_sep, ich CHR ''E'', Grp 10 (plus digit)]),
     opt (cats [comma_sep, ich CHR ''C'', Grp 11 (plus digit)]),
     opt (cats [opt_comma, Grp 12 (Rep dot)]),
     Eol]"

text \<open>\<^verbatim>\<open>WEAPON_NAME_RE\<close> (no flags): a code that holds a digit, followed by a name; or a
  capitalised name with a calibre in millimetres; or an ammunition line, which starts with
  a greater-than sign. Group 1 is \<^verbatim>\<open>code\<close>, group 2 is \<^verbatim>\<open>name\<close>.\<close>

definition gt :: char where
  "gt = CHR 0x3E"

definition code_char :: "char \<Rightarrow> bool" where
  "code_char c = (is_decimal c \<or> is_ascii_upper c)"

definition WEAPON_NAME_RE :: rx where
  "WEAPON_NAME_RE = alts
     (cats [Bol, Look (Cat (Rep non_space) digit),
            Grp 1 (Cat (Sym code_char) (Rep (Sym (\<lambda>c. code_char c \<or> c = CHR ''-'')))),
            plus space, Grp 2 (plus dot), Eol])
     [cats [Bol, upper_letter, plus letter, plus space, Rep dot, plus digit, opt (ch CHR ''.''),
            Rep digit, Rep space, lit ''mm'', Rep dot, Eol],
      cats [Bol, ch gt, Rep space, plus dot, Eol]]"

text \<open>\<^verbatim>\<open>PROFILE_RE\<close>, with \<^verbatim>\<open>re.IGNORECASE\<close>. Groups: 1 \<^verbatim>\<open>target\<close>, 2 \<^verbatim>\<open>range\<close>, 3 \<^verbatim>\<open>acc\<close>,
  4 \<^verbatim>\<open>str\<close>, 5 \<^verbatim>\<open>dmg\<close>, 6 \<^verbatim>\<open>ammo\<close>, 7 \<^verbatim>\<open>trailing\<close>.\<close>

definition PROFILE_RE :: rx where
  "PROFILE_RE = cats [Bol,
     opt (Grp 1 (alts (ilit ''All'') [ilit ''Inf'', ilit ''Vec'', ilit ''Air'', ilit ''Gnd'',
                                      ilit ''Inf/Vec'', ilit ''Inf/Vec''])),
     opt_comma,
     ich CHR ''R'',
     Grp 2 (alts (plus digit) [ich CHR ''O'', ich CHR ''e'', ilit ''eo'', ich CHR ''o'', ilit ''4o'']),
     ch dq, opt_comma,
     ich CHR ''A'', Grp 3 (plus (none_of '','')), opt_comma,
     opt (cats [ich CHR ''S'', Grp 4 (plus (none_of '','')), opt_comma]),
     ich CHR ''D'', Grp 5 (plus digit),
     opt (cats [opt_comma, ilit ''Ammo'', Rep space, Grp 6 (plus digit)]),
     opt (cats [opt_comma, Grp 7 (Rep dot)]),
     Eol]"

text \<open>\<^verbatim>\<open>PROFILE_DETECT_RE\<close>, with \<^verbatim>\<open>re.IGNORECASE\<close>; it is searched for, not anchored.\<close>

definition PROFILE_DETECT_RE :: rx where
  "PROFILE_DETECT_RE = cats [
     opt (alts (ilit ''All'') [ilit ''Inf'', ilit ''Vec'', ilit ''Air'', ilit ''Gnd'', ilit ''Inf/Vec'']),
     opt_comma,
     ich CHR ''R'', plus digit, ch dq, opt_comma,
     ich CHR ''A'', plus (none_of '',''), opt_comma,
     opt (cats [ich CHR ''S'', plus (none_of '',''), opt_comma]),
     ich CHR ''D'', plus digit]"

text \<open>\<^verbatim>\<open>FOOTER_NOISE_RE\<close>, with \<^verbatim>\<open>re.IGNORECASE\<close>.\<close>

definition FOOTER_NOISE_RE :: rx where
  "FOOTER_NOISE_RE = alts
     (cats [WordB, ilit ''FIRELOCK'', WordB])
     [cats [WordB, ilit ''M.D.C.'', WordB], ilit ''FEDERAL STATES-ARMY'', ilit ''DREKFORT'']"

text \<open>A line that is only a unit type; the start of a class flag (the alternation of the
  source binds weaker than the anchor and the parenthesis); the shape of a special rule;
  a line of underscores.\<close>

definition UNIT_TYPE_ONLY_RE :: rx where
  "UNIT_TYPE_ONLY_RE = cats [Bol, Grp 1 (alts (lit ''Inf'') [lit ''Vec'', lit ''Air'']), Eol]"

definition CLASS_FLAG_RE :: rx where
  "CLASS_FLAG_RE = alts (cats [Bol, ch CHR ''('', plus (one_of ''SWCML'')]) [lit ''CAP'', lit ''CAS)'']"

definition RULE_SHAPE_RE :: rx where
  "RULE_SHAPE_RE = cats [Bol, upper_letter, plus lower_letter,
     Rep (cats [plus space, upper_letter, plus lower_letter]),
     opt (Cat (ch CHR '','') (Rep dot)), Eol]"

definition SEPARATOR_RE :: rx where
  "SEPARATOR_RE = cats [Bol, plus (ch CHR ''_''), Eol]"

text \<open>A truth test on a match: \<open>matches r s\<close> for \<^verbatim>\<open>re.match\<close>, \<open>found r s\<close> for
  \<^verbatim>\<open>re.search\<close>. The text of a group that took part in the match, and Python's truth
  value of a group (a group that took no part is \<^verbatim>\<open>None\<close>).\<close>

definition matches :: "rx \<Rightarrow> string \<Rightarrow> bool" where
  "matches r s = (re_match r s \<noteq> None)"

definition found :: "rx \<Rightarrow> string \<Rightarrow> bool" where
  "found r s = (re_search r s \<noteq> None)"

definition group_str :: "rmatch \<Rightarrow> nat \<Rightarrow> string" where
  "group_str m n = (case group m n of None \<Rightarrow> [] | Some g \<Rightarrow> g)"

definition truthy :: "string option \<Rightarrow> bool" where
  "truthy g = (case g of None \<Rightarrow> False | Some s \<Rightarrow> s \<noteq> [])"

text \<open>An exception ends the computation: \<open>ebind\<close> passes a result on, or the error.
  \<open>item xs i\<close> is the indexing \<^verbatim>\<open>xs[i]\<close> for an index that is not negative.\<close>

definition ebind :: "py_error + 'a \<Rightarrow> ('a \<Rightarrow> py_error + 'b) \<Rightarrow> py_error + 'b" where
  "ebind m f = (case m of Inl e \<Rightarrow> Inl e | Inr x \<Rightarrow> f x)"

definition item :: "'a list \<Rightarrow> nat \<Rightarrow> py_error + 'a" where
  "item xs i = (if i < length xs then Inr (xs ! i) else Inl IndexError)"

text \<open>A \<^verbatim>\<open>for\<close> loop that leaves with \<^verbatim>\<open>break\<close> at the first element for which its body
  finds something.\<close>

fun first_some :: "('a \<Rightarrow> py_error + 'b option) \<Rightarrow> 'a list \<Rightarrow> py_error + 'b option" where
  "first_some f [] = Inr None"
| "first_some f (x # xs) =
     (case f x of
        Inl e \<Rightarrow> Inl e
      | Inr (Some y) \<Rightarrow> Inr (Some y)
      | Inr None \<Rightarrow> first_some f xs)"

section \<open>Card parsing: lines, header and stat block\<close>

text \<open>\<^verbatim>\<open>clean_unit_name\<close>: a question mark before the closing quote of a nickname is
  removed.\<close>

definition clean_unit_name :: "string \<Rightarrow> string" where
  "clean_unit_name name0 =
     (let cleaned = re_sub (cats [ch dq,
                                  Grp 1 (Cat upper_letter
                                           (plus (Sym (\<lambda>c. is_ascii_upper c \<or> c = CHR ''-'')))),
                                  ch CHR ''?'', ch dq])
                           [TLit [dq], TGrp 1, TLit [dq]] name0
      in if cleaned = name0 then re_sub (Cat (ch CHR ''?'') (ch dq)) [TLit [dq]] name0
         else cleaned)"

text \<open>\<^verbatim>\<open>str.splitlines\<close>: a line ends at a line feed, a carriage return (with the line
  feed after it, if any), a vertical tab, a form feed, a file, group or record separator,
  or U+0085; there is no empty last line.\<close>

definition is_linebreak :: "char \<Rightarrow> bool" where
  "is_linebreak c = (let n = cp c in (10 \<le> n \<and> n \<le> 13) \<or> (28 \<le> n \<and> n \<le> 30) \<or> n = 133)"

fun splitlines_from :: "string \<Rightarrow> string \<Rightarrow> string list" where
  "splitlines_from cur [] = (if cur = [] then [] else [cur])"
| "splitlines_from cur [c] = (if is_linebreak c then [cur] else [cur @ [c]])"
| "splitlines_from cur (c # d # cs) =
     (if c = CHR 0x0D \<and> d = CHR 0x0A then cur # splitlines_from [] cs
      else if is_linebreak c then cur # splitlines_from [] (d # cs)
      else splitlines_from (cur @ [c]) (d # cs))"

definition splitlines :: "string \<Rightarrow> string list" where
  "splitlines s = splitlines_from [] s"

text \<open>
  The lines of a card. With line boxes (a non-empty list) the blank lines and the footer
  noise are dropped from the boxes and the lines are their texts; without, the lines come
  from the plain text and the boxes are made from them, without formatting.
\<close>

definition initial_lines :: "string \<Rightarrow> LineBox list \<Rightarrow> string list \<times> LineBox list" where
  "initial_lines card_text line_boxes =
     (if line_boxes \<noteq> []
      then
        (let filtered_boxes =
               filter (\<lambda>lb. py_strip (text' lb) \<noteq> [] \<and> \<not> found FOOTER_NOISE_RE (text' lb))
                 line_boxes
         in (map (\<lambda>lb. norm' (text' lb)) filtered_boxes, filtered_boxes))
      else
        (let lines = map norm' (splitlines card_text);
             lines = filter (\<lambda>ln. py_strip ln \<noteq> []) lines;
             lines = filter (\<lambda>ln. \<not> found FOOTER_NOISE_RE ln) lines
         in (lines, map (\<lambda>ln. \<lparr>text' = ln, is_bold = False, is_italic = False\<rparr>) lines)))"

text \<open>First merging pass (only without formatting): a line that is just a unit type is
  joined with the next line when that one starts with a class flag.\<close>

fun merge_unit_type :: "string list \<Rightarrow> string list" where
  "merge_unit_type [] = []"
| "merge_unit_type [line] = [line]"
| "merge_unit_type (line # next_line # rest) =
     (if matches UNIT_TYPE_ONLY_RE (py_strip line) \<and> matches CLASS_FLAG_RE (py_strip next_line)
      then (line @ py_strip next_line) # merge_unit_type rest
      else line # merge_unit_type (next_line # rest))"

text \<open>Second merging pass: from the fourth line on, a short line without a comma that is
  no profile, no stat line and has not the shape of a special rule is joined with up to
  three short lines after it, if the result has the shape of a weapon name. \<open>i\<close> is the
  index of the first line of the list in the whole list.\<close>

fun collect_fragments :: "string list \<Rightarrow> string list" where
  "collect_fragments [] = []"
| "collect_fragments (next_line # rest) =
     (if found PROFILE_DETECT_RE next_line \<or> matches STAT_RE next_line \<or> length next_line > 30
      then []
      else if length next_line < 30 \<and> CHR '','' \<notin> set next_line
      then next_line # collect_fragments rest
      else [])"

definition join_with :: "string \<Rightarrow> string list \<Rightarrow> string" where
  "join_with sep xs = (case xs of [] \<Rightarrow> [] | x # rest \<Rightarrow> x @ concat (map (\<lambda>y. sep @ y) rest))"

function merge_weapon_names :: "nat \<Rightarrow> string list \<Rightarrow> string list" where
  "merge_weapon_names i [] = []"
| "merge_weapon_names i (line # rest) =
     (if i \<ge> 3 \<and> rest \<noteq> [] \<and> length line < 30 \<and> CHR '','' \<notin> set line
         \<and> \<not> found PROFILE_DETECT_RE line \<and> \<not> matches STAT_RE line
         \<and> \<not> matches RULE_SHAPE_RE line
      then
        (let fragments = line # collect_fragments (take 3 rest) in
         if length fragments > 1 \<and> matches WEAPON_NAME_RE (join_with '' '' fragments)
         then join_with '' '' fragments
                # merge_weapon_names (i + length fragments) (drop (length fragments - 1) rest)
         else line # merge_weapon_names (i + 1) rest)
      else line # merge_weapon_names (i + 1) rest)"
  by pat_completeness auto
termination
  by (relation "measure (\<lambda>(i, lines). length lines)") auto

text \<open>Third pass: \<^verbatim>\<open>At+\<close> after a comma is read as \<^verbatim>\<open>A+\<close>.\<close>

definition fix_accuracy_prefix :: "string \<Rightarrow> string" where
  "fix_accuracy_prefix line =
     (if found (cats [ch CHR '','', Rep space, lit ''At'', ch CHR ''+'']) line
      then re_sub (cats [Grp 1 (Cat (ch CHR '','') (Rep space)), lit ''At'', Grp 2 (ch CHR ''+'')])
                  [TGrp 1, TLit ''A'', TGrp 2] line
      else line)"

text \<open>The lines, the line boxes and \<^verbatim>\<open>has_formatting\<close> when the header search starts;
  \<open>None\<close> when there is no line at all.\<close>

record card_lines =
  cl_lines :: "string list"
  cl_line_boxes :: "LineBox list"
  cl_has_formatting :: bool

definition prepare_lines :: "string \<Rightarrow> LineBox list \<Rightarrow> card_lines option" where
  "prepare_lines card_text line_boxes0 =
     (case initial_lines card_text line_boxes0 of
        (lines0, boxes) \<Rightarrow>
          if lines0 = [] then None
          else
            (let formatting = (boxes \<noteq> [] \<and> list_ex is_italic boxes);
                 lines1 = (if \<not> formatting then merge_unit_type lines0 else lines0);
                 lines2 = merge_weapon_names 0 lines1;
                 lines3 = map fix_accuracy_prefix lines2
             in Some \<lparr>cl_lines = lines3, cl_line_boxes = boxes, cl_has_formatting = formatting\<rparr>))"

text \<open>The points of a header: a split cost stays a string, a single value becomes an
  integer.\<close>

definition points_of :: "string \<Rightarrow> py_error + pyval" where
  "points_of pts_str =
     (if CHR ''/'' \<in> set pts_str then Inr (PStr pts_str)
      else ebind (py_int pts_str) (\<lambda>n. Inr (PInt n)))"

text \<open>A header that was found: the unit name, the points and \<^verbatim>\<open>header_idx\<close>.\<close>

type_synonym header = "string \<times> pyval \<times> nat"

text \<open>The standard form, on one of the first five lines.\<close>

definition header_standard :: "string list \<Rightarrow> py_error + header option" where
  "header_standard lines =
     first_some
       (\<lambda>(i, line).
          case re_match HEADER_RE line of
            None \<Rightarrow> Inr None
          | Some hm \<Rightarrow>
              ebind (points_of (group_str hm 2))
                (\<lambda>pts. Inr (Some (clean_unit_name (norm' (group_str hm 1)), pts, i))))
       (enumerate 0 (take 5 lines))"

text \<open>The name, a dash and the points on three lines.\<close>

definition header_three_lines :: "string list \<Rightarrow> py_error + header option" where
  "header_three_lines lines =
     first_some
       (\<lambda>i.
          ebind (item lines (i + 1)) (\<lambda>dash_line.
            if py_strip dash_line \<noteq> ''-'' then Inr None
            else
              ebind (item lines (i + 2)) (\<lambda>pts_line.
                if \<not> contains (py_lower pts_line) ''pts'' then Inr None
                else
                  (case re_search PTS_RE pts_line of
                     None \<Rightarrow> Inr None
                   | Some pts_match \<Rightarrow>
                       ebind (item lines i) (\<lambda>name_line.
                         ebind (py_int (group_str pts_match 1)) (\<lambda>n.
                           Inr (Some (clean_unit_name (norm' name_line), PInt n, i + 2))))))))
       [0..<min 3 (length lines - 2)]"

text \<open>The name on one line, the dash, the points and \<^verbatim>\<open>pts\<close> on the next.\<close>

definition header_dash_pts :: "string list \<Rightarrow> py_error + header option" where
  "header_dash_pts lines =
     first_some
       (\<lambda>i.
          ebind (item lines i) (\<lambda>line.
            case re_match DASH_PTS_RE line of
              None \<Rightarrow> Inr None
            | Some dash_pts_match \<Rightarrow>
                if i > 0
                then
                  ebind (item lines (i - 1)) (\<lambda>name_line.
                    ebind (points_of (group_str dash_pts_match 1)) (\<lambda>pts.
                      Inr (Some (clean_unit_name (norm' name_line), pts, i))))
                else Inr None))
       [0..<min 4 (length lines - 1)]"

text \<open>The name, the dash and the points on one line, \<^verbatim>\<open>pts\<close> on the next.\<close>

definition header_pts_below :: "string list \<Rightarrow> py_error + header option" where
  "header_pts_below lines =
     first_some
       (\<lambda>i.
          ebind (item lines (i + 1)) (\<lambda>pts_line.
            if py_lower (py_strip pts_line) \<noteq> ''pts'' then Inr None
            else
              ebind (item lines i) (\<lambda>line.
                case re_match NAME_PTS_RE line of
                  None \<Rightarrow> Inr None
                | Some name_pts_match \<Rightarrow>
                    ebind (points_of (group_str name_pts_match 2)) (\<lambda>pts.
                      Inr (Some (clean_unit_name (norm' (group_str name_pts_match 1)), pts,
                                 i + 1))))))
       [0..<min 4 (length lines - 1)]"

text \<open>The header search: the standard form first, then the three split forms in order.\<close>

definition find_header :: "string list \<Rightarrow> py_error + header option" where
  "find_header lines =
     ebind (header_standard lines) (\<lambda>h0.
       case h0 of
         Some h \<Rightarrow> Inr (Some h)
       | None \<Rightarrow>
           ebind (header_three_lines lines) (\<lambda>h1.
             case h1 of
               Some h \<Rightarrow> Inr (Some h)
             | None \<Rightarrow>
                 ebind (header_dash_pts lines) (\<lambda>h2.
                   case h2 of
                     Some h \<Rightarrow> Inr (Some h)
                   | None \<Rightarrow> header_pts_below lines)))"

text \<open>What is read from a stat line that matched: the unit type with its class flag, the
  stats.\<close>

definition int_group :: "rmatch \<Rightarrow> nat \<Rightarrow> py_error + int option" where
  "int_group m n =
     (if truthy (group m n) then ebind (py_int (group_str m n)) (\<lambda>v. Inr (Some v))
      else Inr None)"

definition stats_of_match :: "rmatch \<Rightarrow> py_error + string \<times> stats" where
  "stats_of_match m =
     (let unit_type = (if truthy (group m 2)
                       then group_str m 1 @ ''('' @ group_str m 2 @ '')''
                       else group_str m 1);
          move_val = group_str m 5;
          qual_val = group_str m 6
      in
      ebind (if move_val = ''O'' \<or> move_val = ''0'' then Inr 0 else py_int move_val) (\<lambda>mv.
      ebind (if qual_val = ''*'' then Inr (PStr ''*'')
             else ebind (py_int qual_val) (\<lambda>q. Inr (PInt q))) (\<lambda>ql.
      ebind (int_group m 3) (\<lambda>h.
      ebind (int_group m 4) (\<lambda>sp.
      ebind (int_group m 11) (\<lambda>cmd.
      ebind (int_group m 10) (\<lambda>ev.
      ebind (if truthy (group m 7)
             then
               (if truthy (group m 8) \<and> truthy (group m 9)
                then
                  ebind (parse_toughness_value (group_str m 7)) (\<lambda>f.
                  ebind (parse_toughness_value (group_str m 8)) (\<lambda>s.
                  ebind (parse_toughness_value (group_str m 9)) (\<lambda>r.
                    Inr (Some (Directional f s r)))))
                else
                  ebind (parse_toughness_value (group_str m 7)) (\<lambda>t.
                    Inr (Some (Toughness t))))
             else Inr None) (\<lambda>tough.
        Inr (unit_type,
             \<lparr>movement = mv, quality = ql, height = h, spottingDistance = sp, command = cmd,
              evasion = ev, toughness = tough\<rparr>)))))))))"

text \<open>The stat line of index \<open>i\<close>: the line itself, or, with formatting, a line that is
  just a unit type joined with the line after it.\<close>

definition stat_match_at :: "card_lines \<Rightarrow> nat \<Rightarrow> py_error + rmatch option" where
  "stat_match_at cl i =
     ebind (item (cl_lines cl) i) (\<lambda>line.
       case re_match STAT_RE line of
         Some m \<Rightarrow> Inr (Some m)
       | None \<Rightarrow>
           if cl_has_formatting cl \<and> i + 1 < length (cl_lines cl)
              \<and> matches UNIT_TYPE_ONLY_RE (py_strip line)
           then ebind (item (cl_lines cl) (i + 1)) (\<lambda>next_line. Inr (re_match STAT_RE (line @ next_line)))
           else Inr None)"

text \<open>What the stat search finds: the unit type, the stats, the descriptive category (the
  line before the stat line, when it is not the header line) and \<^verbatim>\<open>stat_i\<close>.\<close>

record stat_block =
  sb_unit_type :: string
  sb_stats :: stats
  sb_descriptive_category :: "string option"
  sb_stat_i :: nat

definition find_stat :: "card_lines \<Rightarrow> nat \<Rightarrow> py_error + stat_block option" where
  "find_stat cl header_idx =
     first_some
       (\<lambda>i.
          ebind (stat_match_at cl i) (\<lambda>mo.
            case mo of
              None \<Rightarrow> Inr None
            | Some m \<Rightarrow>
                ebind (if i > header_idx + 1
                       then ebind (item (cl_lines cl) (i - 1)) (\<lambda>l. Inr (Some l))
                       else Inr None) (\<lambda>dc.
                  ebind (stats_of_match m) (\<lambda>(unit_type, st).
                    Inr (Some \<lparr>sb_unit_type = unit_type, sb_stats = st,
                               sb_descriptive_category = dc, sb_stat_i = i\<rparr>)))))
       [header_idx + 1..<min (header_idx + 10) (length (cl_lines cl))]"

text \<open>Two stat lines: ground infantry with directional toughness, and an aircraft with a
  single toughness value.\<close>

definition stat_example :: string where
  "stat_example = ''Inf(S), M4'' @ [dq] @ '', Q3, T1/1/1''"

definition air_stat_example :: string where
  "air_stat_example = ''Air(CAP), M10'' @ [dq] @ '', Q3, T2''"

section \<open>Card parsing: special rules and description\<close>

text \<open>\<^verbatim>\<open>split_rules_smart\<close>: a line is split at the commas that are outside parentheses; the
  parts are stripped and the empty ones dropped. The depth is a Python integer: a closing
  parenthesis without an opening one makes it negative, and no comma splits from then on
  until it is back at zero.\<close>

fun split_rules_loop :: "string \<Rightarrow> string \<Rightarrow> int \<Rightarrow> string list \<Rightarrow> string list" where
  "split_rules_loop [] current paren_depth rules =
     (let rule = py_strip current in if rule \<noteq> [] then rules @ [rule] else rules)"
| "split_rules_loop (c # cs) current paren_depth rules =
     (if c = CHR ''('' then split_rules_loop cs (current @ [c]) (paren_depth + 1) rules
      else if c = CHR '')'' then split_rules_loop cs (current @ [c]) (paren_depth - 1) rules
      else if c = CHR '','' \<and> paren_depth = 0
      then (let rule = py_strip current in
            split_rules_loop cs [] paren_depth (if rule \<noteq> [] then rules @ [rule] else rules))
      else split_rules_loop cs (current @ [c]) paren_depth rules)"

definition split_rules_smart :: "string \<Rightarrow> string list" where
  "split_rules_smart line = split_rules_loop line [] 0 []"

text \<open>\<^verbatim>\<open>merge_fragmented_rules\<close>. The patterns are \<^verbatim>\<open>^\([^)]+\)$\<close>, a parenthetical, and
  \<^verbatim>\<open>^[A-Z][a-z]+$\<close>, one capitalised word. \<open>i\<close> is the index of the first rule of the list in
  the whole list. The assignment to \<^verbatim>\<open>merged[-1]\<close> raises \<^verbatim>\<open>IndexError\<close> on an empty list.\<close>

definition PAREN_RE :: rx where
  "PAREN_RE = cats [Bol, ch CHR ''('', plus (none_of '')''), ch CHR '')'', Eol]"

definition CAP_WORD_RE :: rx where
  "CAP_WORD_RE = cats [Bol, upper_letter, plus lower_letter, Eol]"

function merge_loop :: "nat \<Rightarrow> string list \<Rightarrow> string list \<Rightarrow> py_error + string list" where
  "merge_loop i [] merged = Inr merged"
| "merge_loop i (rule # rest) merged =
     (if i > 0 \<and> matches PAREN_RE rule
      then (if merged = [] then Inl IndexError
            else merge_loop (i + 1) rest (butlast merged @ [last merged @ '' '' @ rule]))
      else if rest \<noteq> [] \<and> \<not> endswith rule '')''
              \<and> (matches CAP_WORD_RE (hd rest) \<or> matches PAREN_RE (hd rest))
              \<and> length rest \<ge> 2 \<and> matches PAREN_RE (rest ! 1)
      then merge_loop (i + 3) (drop 2 rest) (merged @ [rule @ '' '' @ hd rest @ '' '' @ rest ! 1])
      else if rest \<noteq> [] \<and> \<not> endswith rule '')''
              \<and> (matches CAP_WORD_RE (hd rest) \<or> matches PAREN_RE (hd rest))
              \<and> matches PAREN_RE (hd rest)
      then merge_loop (i + 2) (tl rest) (merged @ [rule @ '' '' @ hd rest])
      else merge_loop (i + 1) rest (merged @ [rule]))"
  by pat_completeness auto
termination
  by (relation "measure (\<lambda>(i, rules, merged). length rules)") auto

definition merge_fragmented_rules :: "string list \<Rightarrow> py_error + string list" where
  "merge_fragmented_rules rules = (if rules = [] then Inr rules else merge_loop 0 rules [])"

text \<open>\<^verbatim>\<open>dedupe_preserve_order\<close>: the first occurrence of each item is kept.\<close>

fun dedupe_items :: "string list \<Rightarrow> string set \<Rightarrow> string list \<Rightarrow> string list" where
  "dedupe_items [] seen result = result"
| "dedupe_items (x # items) seen result =
     (if x \<notin> seen then dedupe_items items (insert x seen) (result @ [x])
      else dedupe_items items seen result)"

definition dedupe_preserve_order :: "string list \<Rightarrow> string list" where
  "dedupe_preserve_order items = dedupe_items items {} []"

text \<open>\<^verbatim>\<open>str.split()\<close> without argument: the words between runs of white space.\<close>

fun py_split_from :: "string \<Rightarrow> string \<Rightarrow> string list" where
  "py_split_from cur [] = (if cur = [] then [] else [cur])"
| "py_split_from cur (c # cs) =
     (if is_space c then (if cur = [] then py_split_from [] cs else cur # py_split_from [] cs)
      else py_split_from (cur @ [c]) cs)"

definition py_split :: "string \<Rightarrow> string list" where
  "py_split s = py_split_from [] s"

text \<open>The two local functions of \<^verbatim>\<open>parse_card_text\<close>. They read the variable
  \<^verbatim>\<open>line_boxes\<close> when they are called, so the boxes are an argument here. The index is
  optional in the source (its default is \<open>-1\<close>, for which the formatting is not looked at).\<close>

definition is_weapon_line :: "LineBox list \<Rightarrow> string \<Rightarrow> nat option \<Rightarrow> bool" where
  "is_weapon_line line_boxes line idx =
     (let matches_pattern = matches WEAPON_NAME_RE line in
      case idx of
        None \<Rightarrow> matches_pattern
      | Some i \<Rightarrow> if i < length line_boxes then matches_pattern \<and> \<not> is_italic (line_boxes ! i)
                  else matches_pattern)"

definition is_special_rule_line :: "LineBox list \<Rightarrow> nat \<Rightarrow> bool" where
  "is_special_rule_line line_boxes idx = (idx < length line_boxes \<and> is_italic (line_boxes ! idx))"

text \<open>The first loop after the stat line, up to a weapon line or past a line of underscores:
  an italic line gives special rules, any other line is kept aside with its index.\<close>

function collect_special_rules ::
  "string list \<Rightarrow> LineBox list \<Rightarrow> nat \<Rightarrow> string list \<Rightarrow> (nat \<times> string) list
     \<Rightarrow> nat \<times> string list \<times> (nat \<times> string) list" where
  "collect_special_rules lines line_boxes cursor special_rules temp_rules =
     (if cursor < length lines \<and> \<not> is_weapon_line line_boxes (lines ! cursor) (Some cursor)
      then
        if matches SEPARATOR_RE (py_strip (lines ! cursor))
        then (cursor + 1, special_rules, temp_rules)
        else if py_strip (strip_char CHR ''_'' (lines ! cursor)) \<noteq> []
        then
          if is_special_rule_line line_boxes cursor
          then collect_special_rules lines line_boxes (cursor + 1)
                 (special_rules @
                    (if CHR '','' \<in> set (py_strip (strip_char CHR ''_'' (lines ! cursor)))
                     then split_rules_smart (py_strip (strip_char CHR ''_'' (lines ! cursor)))
                     else [py_strip (strip_char CHR ''_'' (lines ! cursor))]))
                 temp_rules
          else collect_special_rules lines line_boxes (cursor + 1) special_rules
                 (temp_rules @ [(cursor, py_strip (strip_char CHR ''_'' (lines ! cursor)))])
        else collect_special_rules lines line_boxes (cursor + 1) special_rules temp_rules
      else (cursor, special_rules, temp_rules))"
  by pat_completeness auto
termination
  by (relation "measure (\<lambda>(lines, line_boxes, cursor, special_rules, temp_rules).
                            length lines - cursor)") auto

declare collect_special_rules.simps [simp del]

text \<open>An italic line in which a weapon code starts after some text is split in two: the
  text before the code stays italic, the rest is a line without formatting. The lines are
  paired with the boxes by \<^verbatim>\<open>zip\<close>, which stops at the end of the shorter list.\<close>

definition WEAPON_CODE_RE :: rx where
  "WEAPON_CODE_RE = cats [Look (Cat (Rep non_space) digit), Sym code_char,
     Rep (Sym (\<lambda>c. code_char c \<or> c = CHR ''-'')), plus space, plus non_space]"

definition split_line :: "string \<Rightarrow> LineBox \<Rightarrow> (string \<times> LineBox) list" where
  "split_line line line_box =
     (if is_italic line_box
      then
        (case re_search WEAPON_CODE_RE line of
           None \<Rightarrow> [(line, line_box)]
         | Some code_match \<Rightarrow>
             (let weapon_name_start = m_start code_match;
                  special_rule_part = py_strip (take weapon_name_start line);
                  weapon_part = py_strip (drop weapon_name_start line)
              in if weapon_name_start > 0 \<and> special_rule_part \<noteq> [] \<and> weapon_part \<noteq> []
                 then [(special_rule_part,
                        \<lparr>text' = special_rule_part, is_bold = False, is_italic = True\<rparr>),
                       (weapon_part,
                        \<lparr>text' = weapon_part, is_bold = False, is_italic = False\<rparr>)]
                 else [(line, line_box)]))
      else [(line, line_box)])"

definition split_merged_lines :: "string list \<Rightarrow> LineBox list \<Rightarrow> (string \<times> LineBox) list" where
  "split_merged_lines lines line_boxes =
     concat (map (\<lambda>(line, line_box). split_line line line_box) (zip lines line_boxes))"

text \<open>The lines kept aside: the first of them from which on at least four lines remain,
  the rest reads like a sentence, and the line itself has not the shape of a rule name
  (\<^verbatim>\<open>^[A-Z][a-z]+(?:\s*\([^)]+\))?$\<close>) or is a word that often starts a sentence, starts the
  description; what is before it, or everything, is added to the special rules.\<close>

definition RULE_NAME_RE :: rx where
  "RULE_NAME_RE = cats [Bol, upper_letter, plus lower_letter,
     opt (cats [Rep space, ch CHR ''('', plus (none_of '')''), ch CHR '')'']), Eol]"

definition sentence_words :: "string list" where
  "sentence_words = [''All'', ''The'', ''Each'', ''When'', ''If'', ''Any'', ''This'']"

definition description_starts :: "string list \<Rightarrow> nat \<Rightarrow> bool" where
  "description_starts texts i =
     (i + 3 < length texts \<and>
      (let combined_remaining = join_with '' '' (drop i texts);
           is_sentence = (length combined_remaining > 20 \<and>
                          (endswith combined_remaining ''.'' \<or> endswith combined_remaining '')''));
           is_not_special_rule = (\<not> matches RULE_NAME_RE (texts ! i));
           is_sentence_word = (texts ! i \<in> set sentence_words)
       in is_sentence \<and> (is_not_special_rule \<or> is_sentence_word)))"

definition split_temp_rules ::
  "(nat \<times> string) list \<Rightarrow> string list \<Rightarrow> string list \<times> string option" where
  "split_temp_rules temp_rules special_rules =
     (let texts = map snd temp_rules in
      if temp_rules = [] then (special_rules, None)
      else
        (case find (description_starts texts) [0..<length texts] of
           Some desc_start_idx \<Rightarrow>
             (special_rules @ take desc_start_idx texts,
              Some (join_with '' '' (drop desc_start_idx texts)))
         | None \<Rightarrow> (special_rules @ texts, None)))"

text \<open>The look ahead for a description block: text, a line of underscores, then a weapon.
  \<open>after_separator\<close> is the inner loop, which passes further separators and blank lines
  and tells whether the line it stops at is a weapon line.\<close>

function after_separator :: "string list \<Rightarrow> LineBox list \<Rightarrow> nat \<Rightarrow> nat \<times> bool" where
  "after_separator lines line_boxes peek_cursor =
     (if peek_cursor < length lines
      then
        if matches SEPARATOR_RE (py_strip (lines ! peek_cursor)) \<or> py_strip (lines ! peek_cursor) = []
        then after_separator lines line_boxes (peek_cursor + 1)
        else (peek_cursor, is_weapon_line line_boxes (lines ! peek_cursor) None)
      else (peek_cursor, False))"
  by pat_completeness auto
termination
  by (relation "measure (\<lambda>(lines, line_boxes, peek_cursor). length lines - peek_cursor)") auto

declare after_separator.simps [simp del]

text \<open>The result: \<^verbatim>\<open>peek_cursor\<close>, \<^verbatim>\<open>potential_desc_lines\<close>, \<^verbatim>\<open>found_second_separator\<close> and
  \<^verbatim>\<open>found_weapon_after\<close>.\<close>

function peek_description ::
  "string list \<Rightarrow> LineBox list \<Rightarrow> nat \<Rightarrow> string list \<Rightarrow> nat \<times> string list \<times> bool \<times> bool" where
  "peek_description lines line_boxes peek_cursor potential_desc_lines =
     (if peek_cursor < length lines
      then
        if matches SEPARATOR_RE (py_strip (lines ! peek_cursor))
        then (case after_separator lines line_boxes (peek_cursor + 1) of
                (p, found_weapon_after) \<Rightarrow> (p, potential_desc_lines, True, found_weapon_after))
        else if is_weapon_line line_boxes (lines ! peek_cursor) None
        then (peek_cursor, potential_desc_lines, False, False)
        else peek_description lines line_boxes (peek_cursor + 1)
               (if py_strip (strip_char CHR ''_'' (lines ! peek_cursor)) \<noteq> []
                then potential_desc_lines @ [py_strip (strip_char CHR ''_'' (lines ! peek_cursor))]
                else potential_desc_lines)
      else (peek_cursor, potential_desc_lines, False, False))"
  by pat_completeness auto
termination
  by (relation "measure (\<lambda>(lines, line_boxes, peek_cursor, potential_desc_lines).
                            length lines - peek_cursor)") auto

declare peek_description.simps [simp del]

text \<open>The result: the cursor, the special rules and the description.\<close>

definition description_block ::
  "string list \<Rightarrow> LineBox list \<Rightarrow> nat \<Rightarrow> string list \<Rightarrow> string option
     \<Rightarrow> nat \<times> string list \<times> string option" where
  "description_block lines line_boxes cursor special_rules desc =
     (if cursor < length lines \<and> \<not> is_weapon_line line_boxes (lines ! cursor) None
      then
        (case peek_description lines line_boxes cursor [] of
           (peek_cursor, potential_desc_lines, found_second_separator, found_weapon_after) \<Rightarrow>
             if found_second_separator \<and> found_weapon_after \<and> potential_desc_lines \<noteq> []
             then (peek_cursor, special_rules, Some (join_with '' '' potential_desc_lines))
             else if potential_desc_lines \<noteq> [] \<and> \<not> found_weapon_after
             then (cursor,
                   special_rules @
                     filter (\<lambda>line. \<not> (length (py_split line) > 5 \<and> CHR '','' \<notin> set line))
                       potential_desc_lines,
                   desc)
             else (cursor, special_rules, desc))
      else (cursor, special_rules, desc))"

section \<open>Card parsing: weapons\<close>

text \<open>A line in which a special rule stands before an ammunition variant is cut down to
  the variant, unless what stands before the greater-than sign is a weapon name.\<close>

definition cleaned_line :: "string \<Rightarrow> string" where
  "cleaned_line line =
     (if gt \<in> set line \<and> \<not> startswith (py_strip line) [gt]
      then
        (case split_first gt line of
           [first, second] \<Rightarrow>
             (let first_part = py_strip first;
                  potential_ammo = gt # py_strip second
              in if matches WEAPON_NAME_RE potential_ammo \<and> \<not> matches WEAPON_NAME_RE first_part
                 then potential_ammo else line)
         | _ \<Rightarrow> line)
      else line)"

text \<open>
  \<^verbatim>\<open>str.upper\<close> and \<^verbatim>\<open>str.title\<close>. The capital of U+00DF is \<^verbatim>\<open>SS\<close> (\<^verbatim>\<open>Ss\<close> in a title). The
  capitals of U+00B5 and U+00FF are U+039C and U+0178, outside the strings of the model;
  the two characters are left as they are, which makes no difference to the test for the
  ASCII word \<^verbatim>\<open>MORTAR\<close>, the one use of \<^verbatim>\<open>upper\<close>. In a title a character is capitalised
  when the character before it is not a cased one, and put in lower case otherwise.
\<close>

definition upper_char :: "char \<Rightarrow> string" where
  "upper_char c = (let n = cp c in
     if (97 \<le> n \<and> n \<le> 122) \<or> (224 \<le> n \<and> n \<le> 254 \<and> n \<noteq> 247) then [char_of (n - 32)]
     else if n = 223 then ''SS''
     else [c])"

definition py_upper :: "string \<Rightarrow> string" where
  "py_upper s = concat (map upper_char s)"

definition is_cased :: "char \<Rightarrow> bool" where
  "is_cased c = (let n = cp c in
     (65 \<le> n \<and> n \<le> 90) \<or> (97 \<le> n \<and> n \<le> 122) \<or> n = 170 \<or> n = 181 \<or> n = 186 \<or>
     (192 \<le> n \<and> n \<le> 255 \<and> n \<noteq> 215 \<and> n \<noteq> 247))"

definition title_char :: "char \<Rightarrow> string" where
  "title_char c = (if cp c = 223 then ''Ss'' else upper_char c)"

fun title_from :: "bool \<Rightarrow> string \<Rightarrow> string" where
  "title_from previous_is_cased [] = []"
| "title_from previous_is_cased (c # cs) =
     (if previous_is_cased then [lower_char c] else title_char c) @ title_from (is_cased c) cs"

definition py_title :: "string \<Rightarrow> string" where
  "py_title s = title_from False s"

text \<open>The name given to a weapon without a name from the calibre of an ammunition variant
  (\<^verbatim>\<open>(\d+mm)\<close>) and, when the descriptive category of the unit speaks of a mortar, from the
  last of its other words.\<close>

definition CALIBER_RE :: rx where
  "CALIBER_RE = Grp 1 (Cat (plus digit) (lit ''mm''))"

definition mortar_name :: "string option \<Rightarrow> string \<Rightarrow> string" where
  "mortar_name descriptive_category caliber =
     (case descriptive_category of
        None \<Rightarrow> caliber @ '' Mortar''
      | Some dc \<Rightarrow>
          if dc \<noteq> [] \<and> contains (py_upper dc) ''MORTAR''
          then
            (let desc_words = py_split (py_lower dc);
                 mortar_type =
                   foldl (\<lambda>mortar_type word.
                            if word \<notin> set [''towed'', ''mortar'', ''self-propelled'']
                            then py_title word @ '' '' else mortar_type)
                     [] desc_words
             in caliber @ '' '' @ mortar_type @ ''Mortar'')
          else caliber @ '' Mortar'')"

text \<open>
  A profile without a name line. Its name is the last special rule of the weapon before
  it, when that rule has the shape of a weapon name; the rule is then removed from that
  weapon with \<^verbatim>\<open>pop\<close>, and the key \<^verbatim>\<open>specialRules\<close> is deleted when the list is left empty.
  The list object of a base weapon that was created for an ammunition variant is the
  list object of its first shot type as well (see \<open>fold_weapon\<close>): \<open>shared\<close> tells that
  the last weapon is in that state, and then the first shot type loses the rule too, but
  keeps its key.
\<close>

definition title_from_last_rule :: "string \<Rightarrow> string" where
  "title_from_last_rule last_rule =
     (if gt \<in> set last_rule \<and> \<not> startswith last_rule [gt]
      then
        (case split_first gt last_rule of
           [first, second] \<Rightarrow>
             (let potential_ammo = gt # py_strip second
              in if matches WEAPON_NAME_RE potential_ammo then potential_ammo else last_rule)
         | _ \<Rightarrow> last_rule)
      else last_rule)"

definition pop_last_rule :: "weapon \<Rightarrow> bool \<Rightarrow> weapon" where
  "pop_last_rule w shared =
     (case w_specialRules w of
        None \<Rightarrow> w
      | Some rules \<Rightarrow>
          w\<lparr>w_specialRules := (if butlast rules = [] then None else Some (butlast rules)),
            w_shotTypes :=
              (case w_shotTypes w of
                 Some (s # ss) \<Rightarrow>
                   if shared then Some (s\<lparr>s_specialRules := Some (butlast rules)\<rparr> # ss)
                   else Some (s # ss)
               | other \<Rightarrow> other)\<rparr>)"

text \<open>The look ahead of a profile that is still without a name: the next line that is not
  blank and no line of underscores names it if it is an ammunition variant with a calibre;
  the search stops there, and at a profile.\<close>

function lookahead_ammo_name :: "string list \<Rightarrow> string option \<Rightarrow> nat \<Rightarrow> string option" where
  "lookahead_ammo_name lines descriptive_category next_cursor =
     (if next_cursor < length lines
      then
        if py_strip (lines ! next_cursor) = [] \<or> matches SEPARATOR_RE (py_strip (lines ! next_cursor))
        then lookahead_ammo_name lines descriptive_category (next_cursor + 1)
        else if startswith (py_strip (lines ! next_cursor)) [gt]
        then (case re_search CALIBER_RE (py_strip (lines ! next_cursor)) of
                Some caliber_match \<Rightarrow> Some (mortar_name descriptive_category (group_str caliber_match 1))
              | None \<Rightarrow> None)
        else if found PROFILE_DETECT_RE (py_strip (lines ! next_cursor)) then None
        else lookahead_ammo_name lines descriptive_category (next_cursor + 1)
      else None)"
  by pat_completeness auto
termination
  by (relation "measure (\<lambda>(lines, descriptive_category, next_cursor). length lines - next_cursor)")
     auto

declare lookahead_ammo_name.simps [simp del]

text \<open>The result: the title, the weapons and \<open>shared\<close>.\<close>

definition unnamed_title ::
  "string list \<Rightarrow> string option \<Rightarrow> nat \<Rightarrow> weapon list \<Rightarrow> bool \<Rightarrow> string \<times> weapon list \<times> bool" where
  "unnamed_title lines descriptive_category cursor wlist shared =
     (let from_rules =
            (if wlist \<noteq> []
             then
               (case w_specialRules (last wlist) of
                  None \<Rightarrow> None
                | Some rules \<Rightarrow>
                    if rules \<noteq> [] \<and> matches WEAPON_NAME_RE (last rules)
                    then Some (title_from_last_rule (last rules),
                               butlast wlist @ [pop_last_rule (last wlist) shared],
                               shared \<and> butlast rules \<noteq> [])
                    else None)
             else None);
          (weapon_title, wlist, shared) =
            (case from_rules of
               None \<Rightarrow> (''(Unnamed weapon)'', wlist, shared)
             | Some r \<Rightarrow> r)
      in if weapon_title = ''(Unnamed weapon)''
         then
           (case lookahead_ammo_name lines descriptive_category (cursor + 1) of
              None \<Rightarrow> (weapon_title, wlist, shared)
            | Some t \<Rightarrow> (t, wlist, shared))
         else (weapon_title, wlist, shared))"

text \<open>
  A name line. The name is the whole match; \<^verbatim>\<open>Ammo N\<close> is taken out of it
  (\<^verbatim>\<open>\s*Ammo\s+\d+\s*\<close>, ignoring case), the rules \<^verbatim>\<open>Turret\<close>, \<^verbatim>\<open>No CC\<close> and \<^verbatim>\<open>Multi-Gun\<close> are
  taken out of the part before a greater-than sign, or of the whole name when there is
  none, and kept as \<^verbatim>\<open>embedded_special_rules\<close>; runs of white space become one space.
\<close>

definition AMMO_IN_NAME_RE :: rx where
  "AMMO_IN_NAME_RE = cats [Rep space, ilit ''Ammo'', plus space, plus digit, Rep space]"

definition embedded_rule_names :: "string list" where
  "embedded_rule_names = [''Turret'', ''No CC'', ''Multi-Gun'']"

fun extract_embedded :: "string list \<Rightarrow> string \<Rightarrow> string list \<Rightarrow> string \<times> string list" where
  "extract_embedded [] s embedded = (s, embedded)"
| "extract_embedded (rule # rules) s embedded =
     (if found (cats [WordB, lit rule, WordB]) s
      then extract_embedded rules
             (re_sub (cats [Rep space, WordB, lit rule, WordB, Rep space]) [TLit '' ''] s)
             (embedded @ [rule])
      else extract_embedded rules s embedded)"

definition named_title :: "rmatch \<Rightarrow> string \<times> string list" where
  "named_title wm =
     (let weapon_title = norm' (m_text wm);
          weapon_title = re_sub AMMO_IN_NAME_RE [TLit '' ''] weapon_title;
          (weapon_title, embedded_special_rules) =
            (if gt \<in> set weapon_title \<and> \<not> startswith weapon_title [gt]
             then
               (case split_first gt weapon_title of
                  [first, second] \<Rightarrow>
                    (let ammo_part = gt # py_strip second
                     in case extract_embedded embedded_rule_names (py_strip first) [] of
                          (base_part, embedded) \<Rightarrow>
                            (py_strip base_part @ '' '' @ ammo_part, embedded))
                | _ \<Rightarrow> (weapon_title, []))
             else extract_embedded embedded_rule_names weapon_title [])
      in (py_strip (re_sub (plus space) [TLit '' ''] weapon_title), embedded_special_rules))"

text \<open>
  The lines after a profile, up to the next weapon line: a line \<^verbatim>\<open>Ammo N\<close> gives the
  ammunition; any other line that is no profile is split into special rules if it is
  italic or holds a comma; an ammunition variant or a profile ends the loop. The result
  is the cursor, \<^verbatim>\<open>w_rules\<close> and \<^verbatim>\<open>ammo_from_line\<close>.
\<close>

definition AMMO_LINE_RE :: rx where
  "AMMO_LINE_RE = cats [Bol, ilit ''Ammo'', plus space, Grp 1 (plus digit), Eol]"

definition is_variant_text :: "string \<Rightarrow> bool" where
  "is_variant_text s = (startswith s [gt] \<and> matches WEAPON_NAME_RE s)"

function collect_weapon_rules ::
  "string list \<Rightarrow> LineBox list \<Rightarrow> nat \<Rightarrow> string list \<Rightarrow> int option
     \<Rightarrow> py_error + nat \<times> string list \<times> int option" where
  "collect_weapon_rules lines line_boxes cursor w_rules ammo_from_line =
     (if cursor < length lines \<and> \<not> is_weapon_line line_boxes (lines ! cursor) (Some cursor)
      then
        (case re_match AMMO_LINE_RE (py_strip (strip_char CHR ''_'' (lines ! cursor))) of
           Some ammo_match \<Rightarrow>
             (case py_int (group_str ammo_match 1) of
                Inl e \<Rightarrow> Inl e
              | Inr n \<Rightarrow> collect_weapon_rules lines line_boxes (cursor + 1) w_rules (Some n))
         | None \<Rightarrow>
             if py_strip (strip_char CHR ''_'' (lines ! cursor)) \<noteq> []
                \<and> \<not> found PROFILE_DETECT_RE (py_strip (strip_char CHR ''_'' (lines ! cursor)))
             then
               if is_variant_text (py_strip (strip_char CHR ''_'' (lines ! cursor)))
               then Inr (cursor, w_rules, ammo_from_line)
               else collect_weapon_rules lines line_boxes (cursor + 1)
                      (if (cursor < length line_boxes \<and> is_italic (line_boxes ! cursor))
                          \<or> CHR '','' \<in> set (py_strip (strip_char CHR ''_'' (lines ! cursor)))
                       then w_rules @
                              filter (\<lambda>part. \<not> is_variant_text part)
                                (split_rules_smart (py_strip (strip_char CHR ''_'' (lines ! cursor))))
                       else w_rules)
                      ammo_from_line
             else if found PROFILE_DETECT_RE (py_strip (strip_char CHR ''_'' (lines ! cursor)))
             then Inr (cursor, w_rules, ammo_from_line)
             else collect_weapon_rules lines line_boxes (cursor + 1) w_rules ammo_from_line)
      else Inr (cursor, w_rules, ammo_from_line))"
  by pat_completeness auto
termination
  by (relation "measure (\<lambda>(lines, line_boxes, cursor, w_rules, ammo_from_line).
                            length lines - cursor)") auto

declare collect_weapon_rules.simps [simp del]

text \<open>
  The weapon of a profile. \<^verbatim>\<open>parse_acc\<close> and \<^verbatim>\<open>parse_strength\<close> are both called before the
  accuracy is looked at; without an accuracy there is no weapon (\<open>None\<close>). A weapon that is
  still without a name takes it from the first of its rules that is an ammunition variant
  with a calibre, and that rule is removed. The result is the title and the weapon.
\<close>

definition fix_range :: "string \<Rightarrow> string" where
  "fix_range range_val =
     (if range_val = ''O'' \<or> py_lower range_val = ''o'' then ''0''
      else if py_lower range_val = ''e'' \<or> py_lower range_val = ''eo'' then ''40''
      else if py_lower range_val = ''4o'' then ''40''
      else range_val)"

fun name_from_rules :: "string option \<Rightarrow> string list \<Rightarrow> (string \<times> string) option" where
  "name_from_rules descriptive_category [] = None"
| "name_from_rules descriptive_category (rule # rules) =
     (if startswith rule [gt]
      then (case re_search CALIBER_RE rule of
              Some caliber_match \<Rightarrow>
                Some (mortar_name descriptive_category (group_str caliber_match 1), rule)
            | None \<Rightarrow> name_from_rules descriptive_category rules)
      else name_from_rules descriptive_category rules)"

definition build_weapon ::
  "string option \<Rightarrow> rmatch \<Rightarrow> string \<Rightarrow> string list \<Rightarrow> int option \<Rightarrow> string list option
     \<Rightarrow> py_error + (string \<times> weapon) option" where
  "build_weapon descriptive_category pm weapon_title0 w_rules0 ammo_from_line embedded =
     ebind (parse_acc (group_str pm 3)) (\<lambda>accuracy.
     ebind (if truthy (group pm 4) then parse_strength (group_str pm 4) else Inr None) (\<lambda>strength.
       case accuracy of
         None \<Rightarrow> Inr None
       | Some acc \<Rightarrow>
           ebind (py_int (fix_range (group_str pm 2))) (\<lambda>range.
           ebind (py_int (group_str pm 5)) (\<lambda>dice.
           ebind (if truthy (group pm 6)
                  then ebind (py_int (group_str pm 6)) (\<lambda>a. Inr (Some a))
                  else Inr ammo_from_line) (\<lambda>ammo.
             let target = (if truthy (group pm 1)
                           then filter (\<lambda>c. c \<noteq> CHR '' '') (group_str pm 1) else ''All'');
                 renamed = (if weapon_title0 = ''(Unnamed weapon)'' \<and> w_rules0 \<noteq> []
                            then name_from_rules descriptive_category w_rules0 else None);
                 weapon_title = (case renamed of None \<Rightarrow> weapon_title0 | Some (t, rule) \<Rightarrow> t);
                 w_rules = (case renamed of None \<Rightarrow> w_rules0 | Some (t, rule) \<Rightarrow> remove1 rule w_rules0);
                 w_rules = (case embedded of
                              None \<Rightarrow> w_rules
                            | Some e \<Rightarrow> if e \<noteq> [] then e @ w_rules else w_rules)
             in ebind (if w_rules \<noteq> []
                       then ebind (merge_fragmented_rules w_rules)
                              (\<lambda>merged_w_rules. Inr (Some (dedupe_preserve_order merged_w_rules)))
                       else Inr None) (\<lambda>rules.
                  Inr (Some (weapon_title,
                             \<lparr>w_name = weapon_title, w_target = target, w_range = range,
                              w_accuracy = acc, w_dice = dice, w_strength = strength,
                              w_ammo = Some ammo, w_specialRules = rules,
                              w_shotTypes = None\<rparr>))))))))"

text \<open>
  A shot type made from the weapon of a profile. For smoke and chemical ammunition a rule
  that is only a radius, \<^verbatim>\<open>^\([0-9]+"?\)$\<close>, is given the kind of ammunition, the last word of
  the name (the name ends with that word, so there is one), and its inch mark.
\<close>

definition RADIUS_RE :: rx where
  "RADIUS_RE = cats [Bol, ch CHR ''('', plus (Sym is_decimal), opt (ch dq), ch CHR '')'', Eol]"

definition is_smoke :: "string \<Rightarrow> bool" where
  "is_smoke shot_name = (endswith shot_name ''Smoke'' \<or> endswith shot_name ''Chemical-SP'')"

definition fix_smoke_rules :: "string \<Rightarrow> string list \<Rightarrow> string list" where
  "fix_smoke_rules shot_name rules =
     (if is_smoke shot_name
      then
        (let ammo_type = last (py_split shot_name)
         in map (\<lambda>rule.
                   if matches RADIUS_RE rule
                   then (let radius = (if dq \<notin> set rule \<and> CHR '')'' \<in> set rule
                                       then replace_all '')'' (dq # '')'') rule else rule)
                         in ammo_type @ '' '' @ radius)
                   else rule) rules)
      else rules)"

definition make_shot_type :: "string \<Rightarrow> weapon \<Rightarrow> shot_type" where
  "make_shot_type shot_name weapon_obj =
     \<lparr>s_name = shot_name, s_target = w_target weapon_obj, s_range = w_range weapon_obj,
      s_accuracy = w_accuracy weapon_obj, s_strength = w_strength weapon_obj,
      s_dice = w_dice weapon_obj,
      s_specialRules =
        (case w_specialRules weapon_obj of
           None \<Rightarrow> None
         | Some rules \<Rightarrow> if rules \<noteq> [] then Some (fix_smoke_rules shot_name rules) else None)\<rparr>"

definition add_shot_type :: "weapon \<Rightarrow> shot_type \<Rightarrow> weapon" where
  "add_shot_type base_weapon shot =
     base_weapon\<lparr>w_shotTypes :=
       Some ((case w_shotTypes base_weapon of None \<Rightarrow> [] | Some shots \<Rightarrow> shots) @ [shot])\<rparr>"

text \<open>The base weapon that is created for a name with a base and a variant: the values of
  the profile, with the keys \<^verbatim>\<open>ammo\<close> and \<^verbatim>\<open>specialRules\<close> only if they have a value.\<close>

definition placeholder :: "string \<Rightarrow> weapon \<Rightarrow> weapon" where
  "placeholder base_weapon_name weapon_obj =
     \<lparr>w_name = base_weapon_name, w_target = w_target weapon_obj, w_range = w_range weapon_obj,
      w_accuracy = w_accuracy weapon_obj, w_dice = w_dice weapon_obj,
      w_strength = w_strength weapon_obj,
      w_ammo = (case w_ammo weapon_obj of Some (Some a) \<Rightarrow> Some (Some a) | _ \<Rightarrow> None),
      w_specialRules =
        (case w_specialRules weapon_obj of
           None \<Rightarrow> None
         | Some rules \<Rightarrow> if rules \<noteq> [] then Some rules else None),
      w_shotTypes = None\<rparr>"

text \<open>The two searches for a base weapon, from the last weapon backwards: by name; and, for
  a variant, the first weapon that is no variant itself and, when the variant has a
  calibre, has the same calibre.\<close>

definition find_base_by_name :: "weapon list \<Rightarrow> string \<Rightarrow> nat option" where
  "find_base_by_name wlist base_weapon_name =
     find (\<lambda>i. w_name (wlist ! i) = base_weapon_name) (rev [0..<length wlist])"

definition find_base_for_variant :: "weapon list \<Rightarrow> string option \<Rightarrow> nat option" where
  "find_base_for_variant wlist ammo_caliber =
     find (\<lambda>i. let weapon_name = w_name (wlist ! i) in
                \<not> startswith weapon_name [gt] \<and>
                (case ammo_caliber of
                   None \<Rightarrow> True
                 | Some c \<Rightarrow>
                     (case re_search CALIBER_RE weapon_name of
                        None \<Rightarrow> False
                      | Some weapon_caliber_match \<Rightarrow> group_str weapon_caliber_match 1 = c)))
       (rev [0..<length wlist])"

text \<open>
  Where the weapon of a profile goes (the last part of the loop body). A title with a
  greater-than sign after its start is a base weapon and a variant: the variant becomes a
  shot type of the last weapon with the name of the base, which is created at the end of
  the list if there is none. A title that starts with the sign, when there is a weapon
  already, becomes a shot type of the base found for it, or is dropped, and then one more
  line is passed over. Anything else is added to the list. The result is the weapons,
  \<open>shared\<close>, and the number of lines passed over.
\<close>

definition fold_weapon ::
  "weapon list \<Rightarrow> bool \<Rightarrow> string \<Rightarrow> weapon \<Rightarrow> weapon list \<times> bool \<times> nat" where
  "fold_weapon wlist shared weapon_title weapon_obj =
     (if gt \<in> set weapon_title \<and> \<not> startswith weapon_title [gt]
      then
        (case split_first gt weapon_title of
           [first, second] \<Rightarrow>
             (let base_weapon_name = py_strip first;
                  ammo_variant_name = py_strip second;
                  shot = make_shot_type ammo_variant_name weapon_obj
              in case find_base_by_name wlist base_weapon_name of
                   Some base_weapon_idx \<Rightarrow>
                     (wlist[base_weapon_idx := add_shot_type (wlist ! base_weapon_idx) shot],
                      shared, 0)
                 | None \<Rightarrow>
                     (wlist @ [add_shot_type (placeholder base_weapon_name weapon_obj) shot],
                      w_specialRules (placeholder base_weapon_name weapon_obj) \<noteq> None
                        \<and> \<not> is_smoke ammo_variant_name,
                      0))
         | _ \<Rightarrow> (wlist, shared, 0))
      else if startswith weapon_title [gt] \<and> wlist \<noteq> []
      then
        (let ammo_caliber = (case re_search CALIBER_RE weapon_title of
                               None \<Rightarrow> None
                             | Some ammo_caliber_match \<Rightarrow> Some (group_str ammo_caliber_match 1))
         in case find_base_for_variant wlist ammo_caliber of
              None \<Rightarrow> (wlist, shared, 1)
            | Some base_weapon_idx \<Rightarrow>
                (wlist[base_weapon_idx :=
                           add_shot_type (wlist ! base_weapon_idx)
                             (make_shot_type (py_strip (tl weapon_title)) weapon_obj)],
                 shared, 0))
      else (wlist @ [weapon_obj], False, 0))"

text \<open>
  The state of the weapon loop: the cursor, the weapons, \<^verbatim>\<open>embedded_special_rules\<close> (a local
  variable that keeps its value from one turn of the loop to the next and does not exist
  before the first name line: \<open>None\<close>) and \<open>shared\<close>.
\<close>

record wstate =
  ws_cursor :: nat
  ws_weapons :: "weapon list"
  ws_embedded :: "string list option"
  ws_shared :: bool

text \<open>From the line after the profile to the end of the loop body. \<open>cursor\<close> is the index
  of that line.\<close>

definition finish_weapon ::
  "string list \<Rightarrow> LineBox list \<Rightarrow> string option \<Rightarrow> wstate \<Rightarrow> string \<Rightarrow> rmatch \<Rightarrow> nat
     \<Rightarrow> py_error + wstate" where
  "finish_weapon lines line_boxes descriptive_category st weapon_title pm cursor =
     (let w_rules = (if truthy (group pm 7) \<and> py_strip (group_str pm 7) \<noteq> []
                     then split_rules_smart (group_str pm 7) else [])
      in ebind (collect_weapon_rules lines line_boxes cursor w_rules None)
           (\<lambda>(cursor, w_rules, ammo_from_line).
         ebind (build_weapon descriptive_category pm weapon_title w_rules ammo_from_line
                  (ws_embedded st))
           (\<lambda>built.
              case built of
                None \<Rightarrow> Inr (st\<lparr>ws_cursor := cursor\<rparr>)
              | Some (weapon_title, weapon_obj) \<Rightarrow>
                  (case fold_weapon (ws_weapons st) (ws_shared st) weapon_title weapon_obj of
                     (wlist, shared, passed) \<Rightarrow>
                       Inr (st\<lparr>ws_cursor := cursor + passed, ws_weapons := wlist,
                               ws_shared := shared\<rparr>)))))"

text \<open>One turn of the weapon loop, for a cursor inside the lines. The result is the new
  state and whether the loop is left with \<^verbatim>\<open>break\<close>.\<close>

definition weapon_step ::
  "string list \<Rightarrow> LineBox list \<Rightarrow> string option \<Rightarrow> wstate \<Rightarrow> py_error + wstate \<times> bool" where
  "weapon_step lines line_boxes descriptive_category st =
     (let cursor = ws_cursor st;
          line = lines ! cursor;
          is_italic_line = (cursor < length line_boxes \<and> is_italic (line_boxes ! cursor))
      in case re_match WEAPON_NAME_RE (cleaned_line line) of
           None \<Rightarrow>
             if found PROFILE_DETECT_RE line
             then
               (case re_match PROFILE_RE line of
                  None \<Rightarrow> Inr (st\<lparr>ws_cursor := cursor + 1\<rparr>, False)
                | Some pm \<Rightarrow>
                    (case unnamed_title lines descriptive_category cursor (ws_weapons st)
                            (ws_shared st) of
                       (weapon_title, wlist, shared) \<Rightarrow>
                         ebind (finish_weapon lines line_boxes descriptive_category
                                  (st\<lparr>ws_weapons := wlist, ws_shared := shared\<rparr>)
                                  weapon_title pm (cursor + 1))
                           (\<lambda>st'. Inr (st', False))))
             else Inr (st\<lparr>ws_cursor := cursor + 1\<rparr>, False)
         | Some wm \<Rightarrow>
             if \<not> is_italic_line
             then
               (case named_title wm of
                  (weapon_title, embedded_special_rules) \<Rightarrow>
                    if cursor + 1 \<ge> length lines
                    then Inr (st\<lparr>ws_cursor := cursor + 1,
                                 ws_embedded := Some embedded_special_rules\<rparr>, True)
                    else
                      (case re_match PROFILE_RE (lines ! (cursor + 1)) of
                         None \<Rightarrow> Inr (st\<lparr>ws_cursor := cursor + 2,
                                         ws_embedded := Some embedded_special_rules\<rparr>, False)
                       | Some pm \<Rightarrow>
                           ebind (finish_weapon lines line_boxes descriptive_category
                                    (st\<lparr>ws_embedded := Some embedded_special_rules\<rparr>)
                                    weapon_title pm (cursor + 2))
                             (\<lambda>st'. Inr (st', False))))
             else Inr (st\<lparr>ws_cursor := cursor + 1\<rparr>, False))"

section \<open>Card parsing: the whole card\<close>

text \<open>The weapon loop. Every turn moves the cursor on, which is what its termination rests
  on.\<close>

function weapons_loop ::
  "string list \<Rightarrow> LineBox list \<Rightarrow> string option \<Rightarrow> wstate \<Rightarrow> py_error + wstate" where
  "weapons_loop lines line_boxes descriptive_category st =
     (if ws_cursor st < length lines
      then
        (case weapon_step lines line_boxes descriptive_category st of
           Inl e \<Rightarrow> Inl e
         | Inr (st', stop) \<Rightarrow>
             if stop then Inr st' else weapons_loop lines line_boxes descriptive_category st')
      else Inr st)"
  by pat_completeness auto
termination
proof (relation "measure (\<lambda>(lines, line_boxes, descriptive_category, st).
                            length lines - ws_cursor st)")
  show "wf (measure (\<lambda>(lines, line_boxes, descriptive_category, st).
                       length lines - ws_cursor st))"
    by simp
next
  fix lines :: "string list" and line_boxes :: "LineBox list"
    and descriptive_category :: "string option" and st st' :: wstate and x stop
  assume inside: "ws_cursor st < length lines"
    and step: "weapon_step lines line_boxes descriptive_category st = Inr x"
    and x: "(st', stop) = x"
  have collect: "c \<le> fst res"
    if "collect_weapon_rules lines line_boxes c r a = Inr res" for c r a res
    using that
  proof (induction "length lines - c" arbitrary: c r a res rule: less_induct)
    case less
    have next_turn: "Suc c \<le> fst res'"
      if "c < length lines" and "collect_weapon_rules lines line_boxes (Suc c) r' a' = Inr res'"
      for r' a' res'
      using less.hyps [of "Suc c" r' a' res'] that by simp
    from less.prems show ?case
      apply (subst (asm) collect_weapon_rules.simps)
      apply (auto split: option.splits sum.splits if_splits dest!: next_turn)
      done
  qed
  have finish: "c \<le> ws_cursor s'"
    if "finish_weapon lines line_boxes descriptive_category s t pm c = Inr s'" for s t pm c s'
    using that
    by (auto simp: finish_weapon_def ebind_def Let_def
             split: sum.splits option.splits prod.splits dest!: collect)
  from step x have "ws_cursor st < ws_cursor st'"
    by (auto simp: weapon_step_def ebind_def Let_def
             split: sum.splits option.splits prod.splits if_splits dest!: finish)
  with inside
  show "((lines, line_boxes, descriptive_category, st'),
         (lines, line_boxes, descriptive_category, st))
        \<in> measure (\<lambda>(lines, line_boxes, descriptive_category, st).
                      length lines - ws_cursor st)"
    by simp
qed

declare weapons_loop.simps [simp del]

text \<open>
  What follows the stat line. The cursor starts after the stat line, or one line further
  when the stat line is split in two. The special rules are collected with the boxes as
  they are; then the lines and the boxes are replaced by the split ones, and the later
  stages work on those. The unit has the special rules as a list of their names; the keys
  \<^verbatim>\<open>descriptiveCategory\<close>, \<^verbatim>\<open>description\<close> and \<^verbatim>\<open>weapons\<close> are only set for a value that is not
  empty; \<^verbatim>\<open>options\<close> is always the empty list and is left out; the category is set by the
  caller.
\<close>

definition nonempty :: "string option \<Rightarrow> string option" where
  "nonempty v = (case v of None \<Rightarrow> None | Some s \<Rightarrow> if s \<noteq> [] then Some s else None)"

definition parse_card_body ::
  "card_lines \<Rightarrow> string \<Rightarrow> pyval \<Rightarrow> stat_block \<Rightarrow> py_error + unit_record" where
  "parse_card_body cl unit_name pts sb =
     ebind (item (cl_lines cl) (sb_stat_i sb)) (\<lambda>stat_line.
       let cursor = (if cl_has_formatting cl \<and> matches UNIT_TYPE_ONLY_RE (py_strip stat_line)
                     then sb_stat_i sb + 2 else sb_stat_i sb + 1)
       in case collect_special_rules (cl_lines cl) (cl_line_boxes cl) cursor [] [] of
            (cursor, special_rules, temp_rules) \<Rightarrow>
              (let fixed = split_merged_lines (cl_lines cl) (cl_line_boxes cl);
                   lines = map fst fixed;
                   line_boxes = map snd fixed
               in case split_temp_rules temp_rules special_rules of
                    (special_rules, desc) \<Rightarrow>
                      (case description_block lines line_boxes cursor special_rules desc of
                         (cursor, special_rules, desc) \<Rightarrow>
                           ebind (weapons_loop lines line_boxes (sb_descriptive_category sb)
                                    \<lparr>ws_cursor = cursor, ws_weapons = [], ws_embedded = None,
                                     ws_shared = False\<rparr>) (\<lambda>st.
                           ebind (if special_rules \<noteq> [] then merge_fragmented_rules special_rules
                                  else Inr []) (\<lambda>merged_rules.
                             Inr \<lparr>id' = slugify unit_name, name = unit_name,
                                  unitClass = sb_unit_type sb, points = pts,
                                  unit_stats = sb_stats sb,
                                  descriptiveCategory = nonempty (sb_descriptive_category sb),
                                  specialRules = dedupe_preserve_order merged_rules,
                                  description = nonempty desc,
                                  weapons = (if ws_weapons st \<noteq> [] then Some (ws_weapons st)
                                             else None),
                                  category = None, subcategory = None\<rparr>)))))"

text \<open>\<^verbatim>\<open>parse_card_text\<close>: no record (\<open>Inr None\<close>) without a line, without a header or without
  a stat line; an exception is \<open>Inl\<close>.\<close>

definition parse_card_text :: "string \<Rightarrow> LineBox list \<Rightarrow> py_error + unit_record option" where
  "parse_card_text card_text line_boxes =
     (case prepare_lines card_text line_boxes of
        None \<Rightarrow> Inr None
      | Some cl \<Rightarrow>
          ebind (find_header (cl_lines cl)) (\<lambda>h.
            case h of
              None \<Rightarrow> Inr None
            | Some (unit_name, pts, header_idx) \<Rightarrow>
                ebind (find_stat cl header_idx) (\<lambda>s.
                  case s of
                    None \<Rightarrow> Inr None
                  | Some sb \<Rightarrow> ebind (parse_card_body cl unit_name pts sb) (\<lambda>u. Inr (Some u)))))"

section \<open>The anchors of a card, as the specification words them\<close>

text \<open>
  A header form is found within the first few lines: the one-line form on one of the
  first five lines; or, for a start among the first three lines with two lines after it,
  a line that is just a dash and then a line with a number and \<^verbatim>\<open>pts\<close>; or, among the first
  four lines that are not the last, a line of dash, points and \<^verbatim>\<open>pts\<close> that is not the
  first line, or a line of name, dash and points whose next line is just \<^verbatim>\<open>pts\<close>.
\<close>

definition header_found :: "string list \<Rightarrow> bool" where
  "header_found lines =
     (list_ex (\<lambda>i. matches HEADER_RE (lines ! i)) [0..<min 5 (length lines)]
      \<or> list_ex (\<lambda>i. py_strip (lines ! (i + 1)) = ''-''
                      \<and> contains (py_lower (lines ! (i + 2))) ''pts''
                      \<and> found PTS_RE (lines ! (i + 2)))
           [0..<min 3 (length lines - 2)]
      \<or> list_ex (\<lambda>i. i > 0 \<and> matches DASH_PTS_RE (lines ! i)) [0..<min 4 (length lines - 1)]
      \<or> list_ex (\<lambda>i. py_lower (py_strip (lines ! (i + 1))) = ''pts''
                      \<and> matches NAME_PTS_RE (lines ! i))
           [0..<min 4 (length lines - 1)])"

text \<open>
  A line that matches the stat grammar is found in the window after the header, the nine
  lines that follow line \<open>header_idx\<close>: the line itself matches, or, with formatting, the
  line is just a unit type and matches when it is joined with the line after it.
\<close>

definition stat_found :: "card_lines \<Rightarrow> nat \<Rightarrow> bool" where
  "stat_found cl header_idx =
     list_ex (\<lambda>i. matches STAT_RE (cl_lines cl ! i)
                   \<or> (cl_has_formatting cl \<and> i + 1 < length (cl_lines cl)
                      \<and> matches UNIT_TYPE_ONLY_RE (py_strip (cl_lines cl ! i))
                      \<and> matches STAT_RE (cl_lines cl ! i @ cl_lines cl ! (i + 1))))
       [header_idx + 1..<min (header_idx + 10) (length (cl_lines cl))]"

section \<open>Example cards\<close>

text \<open>A card text is its lines joined by line feeds.\<close>

definition card_of :: "string list \<Rightarrow> string" where
  "card_of lines = join_with [CHR 0x0A] lines"

text \<open>A card without a header, and a card with a header but without a stat line.\<close>

definition no_header_card :: string where
  "no_header_card = card_of [''GRENADIERS'', stat_example]"

definition no_stat_card :: string where
  "no_stat_card = card_of [''GRENADIERS - 120 pts'', ''Elite infantry'']"

text \<open>A card whose first weapon line is an ammunition variant; a card with a base weapon
  and a variant in one name line; and a card with a weapon followed by two variants of
  its calibre and one of another calibre.\<close>

definition rifle_profile :: string where
  "rifle_profile = ''Inf, R12'' @ [dq] @ '', A4+, D1''"

definition gun_profile :: string where
  "gun_profile = ''Vec, R40'' @ [dq] @ '', A4+, S6, D1''"

definition variant_first_card :: string where
  "variant_first_card =
     card_of [''GRENADIERS - 120 pts'', stat_example, [gt] @ '' 82mm Frag'', rifle_profile]"

definition howitzer_card :: string where
  "howitzer_card =
     card_of [''BATTERY - 80 pts'', stat_example,
              ''2K52 152mm Howitzer '' @ [gt] @ '' 152mm HEAT'', gun_profile]"

definition variants_card :: string where
  "variants_card =
     card_of [''BATTERY - 80 pts'', stat_example,
              ''2K52 152mm Howitzer'', gun_profile,
              [gt] @ '' 152mm HEAT'', gun_profile,
              [gt] @ '' 100mm HE'', gun_profile,
              [gt] @ '' 152mm Smoke'', gun_profile]"

text \<open>Cards with two weapons. The accuracy of the second one is a question mark, which
  \<^verbatim>\<open>parse_acc\<close> does not know; its strength is a number, or the superscript two. In the
  last card the accuracy is the superscript two.\<close>

definition bad_accuracy_card :: string where
  "bad_accuracy_card =
     card_of [''GRENADIERS - 120 pts'', stat_example,
              ''6G1 7.76mm Rifle'', rifle_profile,
              ''6L1 85mm RPG'', ''Vec, R8'' @ [dq] @ '', A?, S3, D1'']"

definition bad_strength_card :: string where
  "bad_strength_card =
     card_of [''GRENADIERS - 120 pts'', stat_example,
              ''6G1 7.76mm Rifle'', rifle_profile,
              ''6L1 85mm RPG'', ''Vec, R8'' @ [dq] @ '', A?, S'' @ [CHR 0xB2] @ '', D1'']"

definition superscript_accuracy_card :: string where
  "superscript_accuracy_card =
     card_of [''GRENADIERS - 120 pts'', stat_example,
              ''6G1 7.76mm Rifle'', rifle_profile,
              ''6L1 85mm RPG'', ''Vec, R8'' @ [dq] @ '', A'' @ [CHR 0xB2] @ '', D1'']"

section \<open>Facts about the string operations\<close>

lemma rev_dropWhile_rev_Cons:
  "rev (dropWhile P (rev (x # xs))) =
     (if rev (dropWhile P (rev xs)) = [] \<and> P x then [] else x # rev (dropWhile P (rev xs)))"
  by (auto simp: dropWhile_append)

lemma py_rstrip_Cons:
  "py_rstrip (c # cs) = (if py_rstrip cs = [] \<and> is_space c then [] else c # py_rstrip cs)"
  unfolding py_rstrip_def by (rule rev_dropWhile_rev_Cons)

lemma py_rstrip_Nil [simp]: "py_rstrip [] = []"
  by (simp add: py_rstrip_def)

lemma py_rstrip_append_sep:
  "\<not> is_space c \<Longrightarrow> py_rstrip (a @ c # b) = a @ c # py_rstrip b"
  by (induction a) (auto simp: py_rstrip_Cons)

lemma py_lstrip_append_sep:
  "\<not> is_space c \<Longrightarrow> py_lstrip (a @ c # b) = py_lstrip a @ c # b"
  by (simp add: py_lstrip_def dropWhile_append3)

lemma py_strip_lstrip: "py_strip (py_lstrip a) = py_strip a"
proof (induction a)
  case Nil
  show ?case by (simp add: py_lstrip_def)
next
  case (Cons c cs)
  show ?case
  proof (cases "is_space c")
    case True
    have "py_strip (c # cs) = py_strip cs"
      using True by (simp add: py_strip_def py_rstrip_Cons py_lstrip_def)
    moreover have "py_lstrip (c # cs) = py_lstrip cs"
      using True by (simp add: py_lstrip_def)
    ultimately show ?thesis using Cons by simp
  next
    case False
    then show ?thesis by (simp add: py_lstrip_def)
  qed
qed

lemma py_strip_rstrip: "py_strip (py_rstrip a) = py_strip a"
  by (simp add: py_strip_def py_rstrip_def)

lemma split_char_notin: "sep \<notin> set s \<Longrightarrow> split_char sep s = [s]"
  by (induction s) auto

lemma split_char_one:
  "sep \<notin> set a \<Longrightarrow> sep \<notin> set b \<Longrightarrow> split_char sep (a @ sep # b) = [a, b]"
  by (induction a) (auto simp: split_char_notin)

section \<open>Accuracy and strength parsing\<close>

lemma not_space_slash: "\<not> is_space CHR ''/''"
  by (simp add: is_space_def cp_def)

lemma lower_char_slash: "lower_char CHR ''/'' = CHR ''/''"
  by (simp add: lower_char_def cp_def)

lemma slash_in_lower: "CHR ''/'' \<in> set s \<Longrightarrow> CHR ''/'' \<in> set (py_lower s)"
  unfolding py_lower_def using lower_char_slash by (metis image_eqI set_map)

lemma acc_part_lstrip: "acc_part (py_lstrip a) = acc_part a"
  by (simp add: acc_part_def py_strip_lstrip)

lemma acc_part_rstrip: "acc_part (py_rstrip a) = acc_part a"
  by (simp add: acc_part_def py_strip_rstrip)

lemma set_py_lstrip: "x \<notin> set a \<Longrightarrow> x \<notin> set (py_lstrip a)"
  unfolding py_lstrip_def by (meson set_dropWhileD)

lemma set_py_rstrip: "x \<notin> set a \<Longrightarrow> x \<notin> set (py_rstrip a)"
  unfolding py_rstrip_def by (metis set_dropWhileD set_rev)

lemma parse_acc_pair:
  assumes a: "CHR ''/'' \<notin> set a" and b: "CHR ''/'' \<notin> set b"
  shows "parse_acc (a @ CHR ''/'' # b) =
     (case acc_part a of
        Inl e \<Rightarrow> Inl e
      | Inr None \<Rightarrow> Inr None
      | Inr (Some x) \<Rightarrow>
          (case acc_part b of
             Inl e \<Rightarrow> Inl e
           | Inr None \<Rightarrow> Inr None
           | Inr (Some y) \<Rightarrow> Inr (Some (AccPair x y))))"
proof -
  let ?acc = "py_lstrip a @ CHR ''/'' # py_rstrip b"
  have strip: "py_strip (a @ CHR ''/'' # b) = ?acc"
    by (simp add: py_strip_def py_rstrip_append_sep py_lstrip_append_sep not_space_slash)
  have mem: "CHR ''/'' \<in> set ?acc" by simp
  have ne: "?acc \<noteq> []" by simp
  have low: "py_lower ?acc \<notin> set [''xx'', ''x'']"
    using slash_in_lower [OF mem] by auto
  have n1: "?acc \<noteq> ''++''"
  proof
    assume e: "?acc = ''++''"
    have "CHR ''/'' \<in> set ''++''" using mem unfolding e .
    then show False by simp
  qed
  have n2: "?acc \<noteq> ''*''"
  proof
    assume e: "?acc = ''*''"
    have "CHR ''/'' \<in> set ''*''" using mem unfolding e .
    then show False by simp
  qed
  have sp: "split_char CHR ''/'' ?acc = [py_lstrip a, py_rstrip b]"
    by (rule split_char_one) (simp_all add: set_py_lstrip set_py_rstrip a b)
  have "parse_acc (a @ CHR ''/'' # b) =
      (case acc_parts [py_lstrip a, py_rstrip b] [] of
           Inl e \<Rightarrow> Inl e
         | Inr None \<Rightarrow> Inr None
         | Inr (Some parsed) \<Rightarrow>
             if length parsed = 2 then Inr (Some (AccPair (parsed ! 0) (parsed ! 1)))
             else if length parsed = 1 then Inr (Some (Acc (parsed ! 0)))
             else Inr None)"
    unfolding parse_acc_def strip Let_def using ne low n1 n2 mem sp by simp
  then show ?thesis
    by (simp add: acc_part_lstrip acc_part_rstrip split: sum.splits option.splits)
qed

lemma decimal_not_space: "is_decimal c \<Longrightarrow> \<not> is_space c"
  by (auto simp: is_decimal_def is_space_def Let_def)

lemma decimal_is_digit: "is_decimal c \<Longrightarrow> is_digit c"
  by (auto simp: is_decimal_def is_digit_def Let_def)

lemma decimal_not_plus: "is_decimal c \<Longrightarrow> c \<noteq> CHR ''+''"
  by (auto simp: is_decimal_def cp_def)

lemma decimal_not_slash: "is_decimal c \<Longrightarrow> c \<noteq> CHR ''/''"
  by (auto simp: is_decimal_def cp_def)

lemma decimal_not_bracket: "is_decimal c \<Longrightarrow> c \<noteq> CHR ''[''"
  by (auto simp: is_decimal_def cp_def)

lemma decimal_lower: "is_decimal c \<Longrightarrow> lower_char c = c"
  by (auto simp: is_decimal_def lower_char_def Let_def)

lemma py_strip_id:
  assumes "s \<noteq> []" "\<not> is_space (hd s)" "\<not> is_space (last s)"
  shows "py_strip s = s"
proof -
  have "dropWhile is_space (rev s) = rev s"
    using assms by (cases "rev s") (auto simp: last_rev hd_rev)
  then have "py_rstrip s = s" by (simp add: py_rstrip_def)
  moreover have "dropWhile is_space s = s" using assms by (cases s) auto
  ultimately show ?thesis by (simp add: py_strip_def py_lstrip_def)
qed

lemma rstrip_char_id: "s \<noteq> [] \<Longrightarrow> last s \<noteq> c \<Longrightarrow> rstrip_char c s = s"
  unfolding rstrip_char_def by (cases "rev s") (auto simp: last_rev hd_rev)

lemma rstrip_char_snoc: "rstrip_char c (s @ [c]) = rstrip_char c s"
  by (simp add: rstrip_char_def)

text \<open>A token of decimal digits followed by one plus sign.\<close>

lemma token_facts:
  assumes ne: "ds \<noteq> []" and dec: "list_all is_decimal ds"
  shows "py_strip (ds @ ''+'') = ds @ ''+''"
    and "py_strip ds = ds"
    and "rstrip_char CHR ''+'' (ds @ ''+'') = ds"
    and "CHR ''/'' \<notin> set (ds @ ''+'')"
    and "py_isdigit ds"
    and "py_int ds = Inr (decimal_value ds)"
    and "endswith (ds @ ''+'') ''+''"
proof -
  have hd: "is_decimal (hd ds)" and la: "is_decimal (last ds)"
    using ne dec by (auto simp: list_all_iff)
  have "\<not> is_space CHR ''+''" by (simp add: is_space_def cp_def)
  then show "py_strip (ds @ ''+'') = ds @ ''+''"
    using ne hd by (intro py_strip_id) (auto simp: decimal_not_space)
  show "py_strip ds = ds"
    using ne hd la by (intro py_strip_id) (auto simp: decimal_not_space)
  have "rstrip_char CHR ''+'' ds = ds"
    using ne la by (intro rstrip_char_id) (auto simp: decimal_not_plus)
  then show "rstrip_char CHR ''+'' (ds @ ''+'') = ds"
    using rstrip_char_snoc [of "CHR ''+''" ds] by simp
  show "CHR ''/'' \<notin> set (ds @ ''+'')"
    using dec decimal_not_slash by (auto simp: list_all_iff)
  show "py_isdigit ds"
    using ne dec by (auto simp: py_isdigit_def list_all_iff decimal_is_digit)
  show "py_int ds = Inr (decimal_value ds)"
    using ne dec by (simp add: py_int_def)
  show "endswith (ds @ ''+'') ''+''"
    by (simp add: endswith_def)
qed

lemma token_not_sentinel:
  assumes ne: "ds \<noteq> []" and dec: "list_all is_decimal ds"
  shows "py_lower (ds @ ''+'') \<notin> set [''xx'', ''x'']"
    and "ds @ ''+'' \<noteq> ''++''" and "ds @ ''+'' \<noteq> ''*''" and "ds @ ''+'' \<noteq> []"
proof -
  have "last (py_lower (ds @ ''+'')) = CHR ''+''"
    by (simp add: py_lower_def lower_char_def cp_def)
  then show "py_lower (ds @ ''+'') \<notin> set [''xx'', ''x'']" by auto
  have "hd ds \<noteq> CHR ''+''" using ne dec by (cases ds) (auto simp: decimal_not_plus)
  then show "ds @ ''+'' \<noteq> ''++''" using ne by (cases ds) auto
  show "ds @ ''+'' \<noteq> ''*''" using ne by (cases ds) auto
  show "ds @ ''+'' \<noteq> []" by simp
qed

lemma parse_acc_token:
  assumes ne: "ds \<noteq> []" and dec: "list_all is_decimal ds"
  shows "parse_acc (ds @ ''+'') = Inr (Some (Acc (PInt (decimal_value ds))))"
  unfolding parse_acc_def Let_def
  using token_not_sentinel [OF ne dec]
  by (simp only: token_facts [OF ne dec] if_False if_True sum.case simp_thms)

lemma dice_no_decimal:
  assumes "is_decimal c"
  shows "re_match DICE_RE (c # s) = None"
  using decimal_not_bracket [OF assms]
  by (simp add: re_match_def match_at_def DICE_RE_def cats_def ch_def)

lemma parse_strength_token:
  assumes ne: "ds \<noteq> []" and dec: "list_all is_decimal ds"
  shows "parse_strength (ds @ ''+'') = Inr (Some (Str (PStr (ds @ ''+''))))"
proof -
  obtain c cs where ds: "ds = c # cs" using ne by (cases ds) auto
  have "is_decimal c" using dec ds by simp
  then have "re_match DICE_RE (ds @ ''+'') = None"
    using dice_no_decimal [of c "cs @ ''+''"] ds by simp
  then show ?thesis
    unfolding parse_strength_def Let_def
    using token_not_sentinel [OF ne dec]
    by (simp only: token_facts [OF ne dec] if_False if_True sum.case simp_thms)
qed

lemma str_part_token:
  assumes ne: "ds \<noteq> []" and dec: "list_all is_decimal ds"
  shows "str_part (ds @ ''+'') = Inr (Some (PInt (decimal_value ds)))"
  unfolding str_part_def Let_def
  by (simp only: token_facts [OF ne dec] if_False if_True sum.case simp_thms)

lemma str_part_lstrip: "str_part (py_lstrip a) = str_part a"
  by (simp add: str_part_def py_strip_lstrip)

lemma str_part_rstrip: "str_part (py_rstrip a) = str_part a"
  by (simp add: str_part_def py_strip_rstrip)

lemma parse_strength_pair:
  assumes a: "CHR ''/'' \<notin> set a" and b: "CHR ''/'' \<notin> set b"
    and dice: "re_match DICE_RE (py_strip (a @ CHR ''/'' # b)) = None"
  shows "parse_strength (a @ CHR ''/'' # b) =
     (case str_part a of
        Inl e \<Rightarrow> Inl e
      | Inr None \<Rightarrow> Inr None
      | Inr (Some x) \<Rightarrow>
          (case str_part b of
             Inl e \<Rightarrow> Inl e
           | Inr None \<Rightarrow> Inr None
           | Inr (Some y) \<Rightarrow> Inr (Some (StrPair x y))))"
proof -
  let ?sv = "py_lstrip a @ CHR ''/'' # py_rstrip b"
  have strip: "py_strip (a @ CHR ''/'' # b) = ?sv"
    by (simp add: py_strip_def py_rstrip_append_sep py_lstrip_append_sep not_space_slash)
  have mem: "CHR ''/'' \<in> set ?sv" by simp
  have sp: "split_char CHR ''/'' ?sv = [py_lstrip a, py_rstrip b]"
    by (rule split_char_one) (simp_all add: set_py_lstrip set_py_rstrip a b)
  have "parse_strength (a @ CHR ''/'' # b) =
      (case str_parts [py_lstrip a, py_rstrip b] [] of
           Inl e \<Rightarrow> Inl e
         | Inr None \<Rightarrow> Inr None
         | Inr (Some parsed) \<Rightarrow>
             if length parsed = 2 then Inr (Some (StrPair (parsed ! 0) (parsed ! 1)))
             else if length parsed = 1 then Inr (Some (Str (parsed ! 0)))
             else Inr None)"
    unfolding parse_strength_def Let_def using dice mem sp unfolding strip by simp
  then show ?thesis
    by (simp add: str_part_lstrip str_part_rstrip split: sum.splits option.splits)
qed

lemma parse_strength_token_pair:
  assumes ne: "ds \<noteq> []" and dec: "list_all is_decimal ds"
    and ne': "es \<noteq> []" and dec': "list_all is_decimal es"
  shows "parse_strength ((ds @ ''+'') @ CHR ''/'' # (es @ ''+'')) =
           Inr (Some (StrPair (PInt (decimal_value ds)) (PInt (decimal_value es))))"
proof -
  obtain c cs where ds: "ds = c # cs" using ne by (cases ds) auto
  have c: "is_decimal c" using dec ds by simp
  have nsp: "\<not> is_space CHR ''+''" by (simp add: is_space_def cp_def)
  have "py_strip (c # (cs @ ''+/'' @ es @ ''+'')) = c # (cs @ ''+/'' @ es @ ''+'')"
    by (rule py_strip_id) (simp_all add: decimal_not_space c nsp)
  then have dice: "re_match DICE_RE (py_strip ((ds @ ''+'') @ CHR ''/'' # (es @ ''+''))) = None"
    using dice_no_decimal [OF c] by (simp add: ds)
  show ?thesis
    by (simp only: parse_strength_pair [OF token_facts(4) [OF ne dec] token_facts(4) [OF ne' dec'] dice]
          str_part_token [OF ne dec] str_part_token [OF ne' dec'] sum.case option.case)
qed

text \<open>
  C5. Accuracy parsing returns the structure with stationary 3 and moving 4 for the input
  \<^verbatim>\<open>3+/4+\<close>; each of the tokens \<^verbatim>\<open>xx\<close>, \<^verbatim>\<open>++\<close> and \<^verbatim>\<open>*\<close> passes through as its sentinel
  string; and for every slash-joined value of two parts the result is the
  stationary/moving structure built from the two parsed parts (an error or \<^verbatim>\<open>None\<close> when
  a part does not parse), never a single flattened value.
\<close>

theorem parse_acc_pairs_and_sentinels:
  "parse_acc ''3+/4+'' = Inr (Some (AccPair (PInt 3) (PInt 4)))
   \<and> parse_acc ''xx'' = Inr (Some (Acc (PStr ''xx'')))
   \<and> parse_acc ''++'' = Inr (Some (Acc (PStr ''++'')))
   \<and> parse_acc ''*'' = Inr (Some (Acc (PStr ''*'')))
   \<and> (\<forall>a b. CHR ''/'' \<notin> set a \<and> CHR ''/'' \<notin> set b \<longrightarrow>
         parse_acc (a @ ''/'' @ b) =
           (case acc_part a of
              Inl e \<Rightarrow> Inl e
            | Inr None \<Rightarrow> Inr None
            | Inr (Some x) \<Rightarrow>
                (case acc_part b of
                   Inl e \<Rightarrow> Inl e
                 | Inr None \<Rightarrow> Inr None
                 | Inr (Some y) \<Rightarrow> Inr (Some (AccPair x y))))
         \<and> (\<forall>v. parse_acc (a @ ''/'' @ b) \<noteq> Inr (Some (Acc v))))"
proof -
  have e1: "parse_acc ''3+/4+'' = Inr (Some (AccPair (PInt 3) (PInt 4)))" by code_simp
  have e2: "parse_acc ''xx'' = Inr (Some (Acc (PStr ''xx'')))" by code_simp
  have e3: "parse_acc ''++'' = Inr (Some (Acc (PStr ''++'')))" by code_simp
  have e4: "parse_acc ''*'' = Inr (Some (Acc (PStr ''*'')))" by code_simp
  have e5: "parse_acc (a @ ''/'' @ b) \<noteq> Inr (Some (Acc v))"
    if "CHR ''/'' \<notin> set a" "CHR ''/'' \<notin> set b" for a b v
    using parse_acc_pair [OF that] by (simp split: sum.splits option.splits)
  show ?thesis
    using e1 e2 e3 e4 e5 parse_acc_pair by simp
qed

theorem parse_acc_pairs_and_sentinels_witness:
  "CHR ''/'' \<notin> set ''3+'' \<and> CHR ''/'' \<notin> set ''4+''
   \<and> acc_part ''3+'' = Inr (Some (PInt 3)) \<and> acc_part ''4+'' = Inr (Some (PInt 4))
   \<and> parse_acc (''3+'' @ ''/'' @ ''4+'') = Inr (Some (AccPair (PInt 3) (PInt 4)))
   \<and> parse_acc (''3+'' @ ''/'' @ ''4+'') \<noteq> Inr (Some (Acc (PInt 3)))"
proof -
  have h: "CHR ''/'' \<notin> set ''3+'' \<and> CHR ''/'' \<notin> set ''4+''" by simp
  have p3: "acc_part ''3+'' = Inr (Some (PInt 3))" by code_simp
  have p4: "acc_part ''4+'' = Inr (Some (PInt 4))" by code_simp
  from parse_acc_pairs_and_sentinels h
  have "parse_acc (''3+'' @ ''/'' @ ''4+'') =
           (case acc_part ''3+'' of
              Inl e \<Rightarrow> Inl e
            | Inr None \<Rightarrow> Inr None
            | Inr (Some x) \<Rightarrow>
                (case acc_part ''4+'' of
                   Inl e \<Rightarrow> Inl e
                 | Inr None \<Rightarrow> Inr None
                 | Inr (Some y) \<Rightarrow> Inr (Some (AccPair x y))))"
    by blast
  then have "parse_acc (''3+'' @ ''/'' @ ''4+'') = Inr (Some (AccPair (PInt 3) (PInt 4)))"
    by (simp add: p3 p4)
  then show ?thesis using h p3 p4 by simp
qed

text \<open>
  C2, as stated, fails: \<^verbatim>\<open>parse_strength\<close> on the single value \<^verbatim>\<open>3+\<close> returns the string
  \<^verbatim>\<open>3+\<close> (the source keeps a single value that ends in a plus sign as it is, "special
  case like 0+"), not the integer 3.
\<close>

theorem parse_strength_single_plus_counterexample:
  "parse_strength ''3+'' = Inr (Some (Str (PStr ''3+'')))
   \<and> parse_strength ''3+'' \<noteq> Inr (Some (Str (PInt 3)))
   \<and> parse_acc ''4+'' = Inr (Some (Acc (PInt 4)))"
  by code_simp

text \<open>
  C2, amended. For every token of decimal digits followed by a plus sign, \<^verbatim>\<open>parse_acc\<close>
  strips the plus sign and returns the integer, for a single value and for a part of a
  slash-joined pair; \<^verbatim>\<open>parse_strength\<close> strips it and returns the integer for each part
  of a slash-joined pair, and returns a single value that ends in a plus sign unchanged,
  as a string.
\<close>

theorem threshold_plus_convention:
  assumes "ds \<noteq> []" and "list_all is_decimal ds"
    and "es \<noteq> []" and "list_all is_decimal es"
  shows "parse_acc (ds @ ''+'') = Inr (Some (Acc (PInt (decimal_value ds))))
   \<and> parse_acc ((ds @ ''+'') @ ''/'' @ (es @ ''+'')) =
       Inr (Some (AccPair (PInt (decimal_value ds)) (PInt (decimal_value es))))
   \<and> parse_strength ((ds @ ''+'') @ ''/'' @ (es @ ''+'')) =
       Inr (Some (StrPair (PInt (decimal_value ds)) (PInt (decimal_value es))))
   \<and> parse_strength (ds @ ''+'') = Inr (Some (Str (PStr (ds @ ''+''))))"
proof -
  have acc_tok: "acc_part (xs @ ''+'') = Inr (Some (PInt (decimal_value xs)))"
    if ne: "xs \<noteq> []" and dec: "list_all is_decimal xs" for xs
    unfolding acc_part_def Let_def
    using token_not_sentinel [OF ne dec]
    by (simp only: token_facts [OF ne dec] if_False if_True sum.case simp_thms)
  have "parse_acc ((ds @ ''+'') @ CHR ''/'' # (es @ ''+'')) =
       Inr (Some (AccPair (PInt (decimal_value ds)) (PInt (decimal_value es))))"
    by (simp only: parse_acc_pair [OF token_facts(4) [OF assms(1,2)] token_facts(4) [OF assms(3,4)]]
          acc_tok [OF assms(1,2)] acc_tok [OF assms(3,4)] sum.case option.case)
  then show ?thesis
    using parse_acc_token [OF assms(1,2)] parse_strength_token [OF assms(1,2)]
      parse_strength_token_pair [OF assms]
    by simp
qed

theorem threshold_plus_convention_witness:
  "''3'' \<noteq> [] \<and> list_all is_decimal ''3'' \<and> ''4'' \<noteq> [] \<and> list_all is_decimal ''4''
   \<and> parse_acc ''3+'' = Inr (Some (Acc (PInt 3)))
   \<and> parse_acc ''3+/4+'' = Inr (Some (AccPair (PInt 3) (PInt 4)))
   \<and> parse_strength ''3+/4+'' = Inr (Some (StrPair (PInt 3) (PInt 4)))
   \<and> parse_strength ''3+'' = Inr (Some (Str (PStr ''3+'')))"
proof -
  have h3: "''3'' \<noteq> []" "list_all is_decimal ''3''" by code_simp+
  have h4: "''4'' \<noteq> []" "list_all is_decimal ''4''" by code_simp+
  have v: "decimal_value ''3'' = 3" "decimal_value ''4'' = 4" by code_simp+
  show ?thesis
    using threshold_plus_convention [OF h3 h4] h3 h4 by (simp add: v)
qed

section \<open>The line aligner\<close>

lemma best_postI1:
  "(\<And>k. k < length xs \<Longrightarrow> n + k \<notin> used \<Longrightarrow> f (xs ! k) \<le> br) \<Longrightarrow> best_post f used n xs br bm br bm"
  by (simp add: best_post_def)

lemma best_postI2:
  "k < length xs \<Longrightarrow> n + k \<notin> used \<Longrightarrow> br < f (xs ! k) \<Longrightarrow>
   (\<And>k'. k' < k \<Longrightarrow> n + k' \<notin> used \<Longrightarrow> f (xs ! k') < f (xs ! k)) \<Longrightarrow>
   (\<And>k'. k' < length xs \<Longrightarrow> n + k' \<notin> used \<Longrightarrow> f (xs ! k') \<le> f (xs ! k)) \<Longrightarrow>
   best_post f used n xs br bm (f (xs ! k)) (Some (xs ! k, n + k))"
  unfolding best_post_def by blast

lemma best_postE:
  assumes "best_post f used n xs br bm br' bm'"
  obtains (same) "\<And>k. k < length xs \<Longrightarrow> n + k \<notin> used \<Longrightarrow> f (xs ! k) \<le> br" "br' = br" "bm' = bm"
  | (found) k where "k < length xs" "bm' = Some (xs ! k, n + k)" "n + k \<notin> used"
      "f (xs ! k) = br'" "br < br'"
      "\<And>k'. k' < k \<Longrightarrow> n + k' \<notin> used \<Longrightarrow> f (xs ! k') < br'"
      "\<And>k'. k' < length xs \<Longrightarrow> n + k' \<notin> used \<Longrightarrow> f (xs ! k') \<le> br'"
  using assms unfolding best_post_def by blast

lemma best_post_skip:
  assumes u: "n \<in> used" and p: "best_post f used (Suc n) xs br bm br' bm'"
  shows "best_post f used n (x # xs) br bm br' bm'"
  using p
proof (cases rule: best_postE)
  case same
  have "best_post f used n (x # xs) br bm br bm"
  proof (rule best_postI1)
    fix k assume "k < length (x # xs)" "n + k \<notin> used"
    then show "f ((x # xs) ! k) \<le> br" using u same(1) by (cases k) auto
  qed
  then show ?thesis using same by simp
next
  case (found k)
  have "best_post f used n (x # xs) br bm (f ((x # xs) ! Suc k)) (Some ((x # xs) ! Suc k, n + Suc k))"
  proof (rule best_postI2)
    show "Suc k < length (x # xs)" using found by simp
    show "n + Suc k \<notin> used" using found by simp
    show "br < f ((x # xs) ! Suc k)" using found by simp
    show "f ((x # xs) ! k') < f ((x # xs) ! Suc k)" if "k' < Suc k" "n + k' \<notin> used" for k'
      using that u found(4,6) by (cases k') auto
    show "f ((x # xs) ! k') \<le> f ((x # xs) ! Suc k)" if "k' < length (x # xs)" "n + k' \<notin> used" for k'
      using that u found(4,7) by (cases k') auto
  qed
  then show ?thesis using found by simp
qed

lemma best_post_keep:
  assumes u: "n \<notin> used" and le: "f x \<le> br" and p: "best_post f used (Suc n) xs br bm br' bm'"
  shows "best_post f used n (x # xs) br bm br' bm'"
  using p
proof (cases rule: best_postE)
  case same
  have "best_post f used n (x # xs) br bm br bm"
  proof (rule best_postI1)
    fix k assume "k < length (x # xs)" "n + k \<notin> used"
    then show "f ((x # xs) ! k) \<le> br" using le same(1) by (cases k) auto
  qed
  then show ?thesis using same by simp
next
  case (found k)
  have "best_post f used n (x # xs) br bm (f ((x # xs) ! Suc k)) (Some ((x # xs) ! Suc k, n + Suc k))"
  proof (rule best_postI2)
    show "Suc k < length (x # xs)" using found by simp
    show "n + Suc k \<notin> used" using found by simp
    show "br < f ((x # xs) ! Suc k)" using found by simp
    show "f ((x # xs) ! k') < f ((x # xs) ! Suc k)" if "k' < Suc k" "n + k' \<notin> used" for k'
      using that le found(4,5,6) by (cases k') auto
    show "f ((x # xs) ! k') \<le> f ((x # xs) ! Suc k)" if "k' < length (x # xs)" "n + k' \<notin> used" for k'
      using that le found(4,5,7) by (cases k') auto
  qed
  then show ?thesis using found by simp
qed

lemma best_post_take:
  assumes u: "n \<notin> used" and lt: "br < f x"
    and p: "best_post f used (Suc n) xs (f x) (Some (x, n)) br' bm'"
  shows "best_post f used n (x # xs) br bm br' bm'"
  using p
proof (cases rule: best_postE)
  case same
  have "best_post f used n (x # xs) br bm (f ((x # xs) ! 0)) (Some ((x # xs) ! 0, n + 0))"
  proof (rule best_postI2)
    show "0 < length (x # xs)" by simp
    show "n + 0 \<notin> used" using u by simp
    show "br < f ((x # xs) ! 0)" using lt by simp
    show "f ((x # xs) ! k') < f ((x # xs) ! 0)" if "k' < 0" for k'
      using that by simp
    show "f ((x # xs) ! k') \<le> f ((x # xs) ! 0)" if "k' < length (x # xs)" "n + k' \<notin> used" for k'
      using that same(1) by (cases k') auto
  qed
  then show ?thesis using same by simp
next
  case (found k)
  have "best_post f used n (x # xs) br bm (f ((x # xs) ! Suc k)) (Some ((x # xs) ! Suc k, n + Suc k))"
  proof (rule best_postI2)
    show "Suc k < length (x # xs)" using found by simp
    show "n + Suc k \<notin> used" using found by simp
    show "br < f ((x # xs) ! Suc k)" using found lt by simp
    show "f ((x # xs) ! k') < f ((x # xs) ! Suc k)" if "k' < Suc k" "n + k' \<notin> used" for k'
      using that found(4,5,6) by (cases k') auto
    show "f ((x # xs) ! k') \<le> f ((x # xs) ! Suc k)" if "k' < length (x # xs)" "n + k' \<notin> used" for k'
      using that found(4,5,7) by (cases k') auto
  qed
  then show ?thesis using found by simp
qed

lemma best_loop_post:
  "best_loop ratio s used (enumerate n xs) (br, bm) = (br', bm') \<Longrightarrow>
   best_post (\<lambda>x. ratio s (normalize_for_matching (text' x))) used n xs br bm br' bm'"
proof (induction xs arbitrary: n br bm)
  case Nil
  then show ?case by (simp add: best_post_def)
next
  case (Cons x xs)
  let ?f = "\<lambda>x. ratio s (normalize_for_matching (text' x))"
  show ?case
  proof (cases "n \<in> used")
    case True
    then have "best_loop ratio s used (enumerate (Suc n) xs) (br, bm) = (br', bm')"
      using Cons.prems by simp
    from True Cons.IH [OF this] show ?thesis by (rule best_post_skip)
  next
    case False
    show ?thesis
    proof (cases "br < ?f x")
      case True
      then have "best_loop ratio s used (enumerate (Suc n) xs) (?f x, Some (x, n)) = (br', bm')"
        using Cons.prems False by (simp add: Let_def)
      from False True Cons.IH [OF this] show ?thesis by (rule best_post_take)
    next
      case nlt: False
      then have "best_loop ratio s used (enumerate (Suc n) xs) (br, bm) = (br', bm')"
        using Cons.prems False by (simp add: Let_def)
      moreover have "?f x \<le> br" using nlt by simp
      ultimately show ?thesis using False Cons.IH by (intro best_post_keep) auto
    qed
  qed
qed


lemma match_step_post: "step_post ratio pdf used l (match_step ratio pdf used l)"
proof (cases "py_strip l = []")
  case True
  then show ?thesis by (simp add: match_step_def step_post_def)
next
  case False
  let ?f = "\<lambda>x. ratio (normalize_for_matching l) (normalize_for_matching (text' x))"
  obtain br' bm' where bl:
    "best_loop ratio (normalize_for_matching l) used (enumerate 0 pdf) (0, None) = (br', bm')"
    by (cases "best_loop ratio (normalize_for_matching l) used (enumerate 0 pdf) (0, None)")
  from best_loop_post [OF bl] show ?thesis
  proof (cases rule: best_postE)
    case same
    then have "\<forall>k<length pdf. k \<notin> used \<longrightarrow> ?f (pdf ! k) \<le> 6 / 10"
      by (auto intro: order_trans [where y = 0])
    then show ?thesis using False bl same(2,3)
      by (simp add: match_step_def step_post_def)
  next
    case (found k)
    show ?thesis
    proof (cases "br' > 6 / 10")
      case True
      have "first_best (\<lambda>k. ?f (pdf ! k)) used (length pdf) k"
        unfolding first_best_def using found by auto
      then show ?thesis using False bl found(2,4) True
        by (simp add: match_step_def step_post_def)
    next
      case nb: False
      have "\<forall>k<length pdf. k \<notin> used \<longrightarrow> ?f (pdf ! k) \<le> 6 / 10"
        using found(7) nb by fastforce
      then show ?thesis using False bl found(2) nb
        by (simp add: match_step_def step_post_def)
    qed
  qed
qed

lemma consumed_before_0: "consumed_before js 0 = {}"
  by (simp add: consumed_before_def)

lemma consumed_before_Suc:
  "consumed_before (j # js) (Suc i) = (case j of None \<Rightarrow> {} | Some x \<Rightarrow> {x}) \<union> consumed_before js i"
  by (auto simp: consumed_before_def less_Suc_eq_0_disj split: option.splits)

lemma match_run_length: "length (match_run ratio pdf used ocr) = length ocr"
  by (induction ocr arbitrary: used) (auto split: prod.splits option.splits)

lemma match_run_post:
  "i < length ocr \<Longrightarrow>
   step_post ratio pdf (used \<union> consumed_before (map fst (match_run ratio pdf used ocr)) i)
     (ocr ! i) (match_run ratio pdf used ocr ! i)"
proof (induction ocr arbitrary: used i)
  case Nil
  then show ?case by simp
next
  case (Cons l ls)
  obtain j box where st: "match_step ratio pdf used l = (j, box)"
    by (cases "match_step ratio pdf used l")
  let ?used' = "case j of None \<Rightarrow> used | Some x \<Rightarrow> insert x used"
  have run: "match_run ratio pdf used (l # ls) = (j, box) # match_run ratio pdf ?used' ls"
    using st by (cases j) simp_all
  show ?case
  proof (cases i)
    case 0
    then show ?thesis
      using match_step_post [of ratio pdf used l] st run by (simp add: consumed_before_0)
  next
    case (Suc i')
    then have "i' < length ls" using Cons.prems by simp
    from Cons.IH [OF this, of ?used']
    have "step_post ratio pdf (?used' \<union> consumed_before (map fst (match_run ratio pdf ?used' ls)) i')
            (ls ! i') (match_run ratio pdf ?used' ls ! i')" .
    moreover have "?used' \<union> consumed_before (map fst (match_run ratio pdf ?used' ls)) i' =
        used \<union> consumed_before (map fst (match_run ratio pdf used (l # ls))) i"
      unfolding run Suc by (cases j) (auto simp: consumed_before_Suc)
    ultimately show ?thesis unfolding run Suc by simp
  qed
qed


text \<open>
  C1. For every list of OCR lines and every list of PDF line boxes the aligner emits one
  line box per OCR line, in order, with that OCR line as its text. The formatting flags of
  PDF line \<open>j\<close> are transferred to the output line of a non-blank OCR line exactly when
  \<open>j\<close> is the maximum-similarity candidate among the PDF lines not consumed so far (the
  first such line, on a tie) and the ratio exceeds 0.6; every other line, blank lines
  included, is emitted non-bold and non-italic; and no PDF line is consumed twice.
\<close>

theorem match_ocr_to_pdf_lines_spec:
  "let out = match_ocr_to_pdf_lines ratio ocr pdf;
       js = consumed ratio ocr pdf
   in length out = length ocr \<and> map text' out = ocr \<and> length js = length ocr
      \<and> (\<forall>i<length ocr.
            (case js ! i of
               Some j \<Rightarrow>
                 py_strip (ocr ! i) \<noteq> []
                 \<and> first_best (similarity ratio ocr pdf i) (consumed_before js i) (length pdf) j
                 \<and> similarity ratio ocr pdf i j > 6 / 10
                 \<and> is_bold (out ! i) = is_bold (pdf ! j)
                 \<and> is_italic (out ! i) = is_italic (pdf ! j)
             | None \<Rightarrow>
                 \<not> is_bold (out ! i) \<and> \<not> is_italic (out ! i)
                 \<and> (py_strip (ocr ! i) = []
                      \<or> (\<forall>k<length pdf. k \<notin> consumed_before js i \<longrightarrow>
                             similarity ratio ocr pdf i k \<le> 6 / 10))))
      \<and> (\<forall>i i'. i < i' \<and> i' < length ocr \<and> js ! i \<noteq> None \<longrightarrow> js ! i' \<noteq> js ! i)"
proof -
  let ?run = "match_run ratio pdf {} ocr"
  let ?out = "match_ocr_to_pdf_lines ratio ocr pdf"
  let ?js = "consumed ratio ocr pdf"
  have len: "length ?run = length ocr" by (rule match_run_length)
  have post: "step_post ratio pdf (consumed_before ?js i) (ocr ! i) (?run ! i)"
    if "i < length ocr" for i
    using match_run_post [OF that, of ratio pdf "{}"] by (simp add: consumed_def)
  have texts: "map text' ?out = ocr"
  proof (rule nth_equalityI)
    show "length (map text' ?out) = length ocr"
      by (simp add: match_ocr_to_pdf_lines_def len)
    fix i assume "i < length (map text' ?out)"
    then have i: "i < length ocr" by (simp add: match_ocr_to_pdf_lines_def len)
    from post [OF i] show "map text' ?out ! i = ocr ! i"
      using i len by (simp add: step_post_def match_ocr_to_pdf_lines_def Let_def)
  qed
  have each: "case ?js ! i of
               Some j \<Rightarrow>
                 py_strip (ocr ! i) \<noteq> []
                 \<and> first_best (similarity ratio ocr pdf i) (consumed_before ?js i) (length pdf) j
                 \<and> similarity ratio ocr pdf i j > 6 / 10
                 \<and> is_bold (?out ! i) = is_bold (pdf ! j)
                 \<and> is_italic (?out ! i) = is_italic (pdf ! j)
             | None \<Rightarrow>
                 \<not> is_bold (?out ! i) \<and> \<not> is_italic (?out ! i)
                 \<and> (py_strip (ocr ! i) = []
                      \<or> (\<forall>k<length pdf. k \<notin> consumed_before ?js i \<longrightarrow>
                             similarity ratio ocr pdf i k \<le> 6 / 10))"
    if i: "i < length ocr" for i
  proof -
    have sim: "similarity ratio ocr pdf i =
        (\<lambda>k. ratio (normalize_for_matching (ocr ! i)) (normalize_for_matching (text' (pdf ! k))))"
      by (rule ext) (simp add: similarity_def)
    have a: "?js ! i = fst (?run ! i)" "?out ! i = snd (?run ! i)"
      using i len by (simp_all add: consumed_def match_ocr_to_pdf_lines_def)
    show ?thesis
      using post [OF i] unfolding step_post_def Let_def a sim
      by (simp split: option.splits)
  qed
  have once: "?js ! i' \<noteq> ?js ! i" if lt: "i < i'" and i': "i' < length ocr" and some: "?js ! i \<noteq> None" for i i'
  proof -
    obtain j where j: "?js ! i = Some j" using some by auto
    have "i < length ?js" using lt i' len by (simp add: consumed_def)
    then have mem: "j \<in> consumed_before ?js i'"
      using lt j by (auto simp: consumed_before_def)
    show ?thesis
    proof
      assume "?js ! i' = ?js ! i"
      then have "?js ! i' = Some j" using j by simp
      with each [OF i'] have "first_best (similarity ratio ocr pdf i') (consumed_before ?js i') (length pdf) j"
        by simp
      then show False using mem by (simp add: first_best_def)
    qed
  qed
  have "length ?out = length ocr" "length ?js = length ocr"
    by (simp_all add: match_ocr_to_pdf_lines_def consumed_def len)
  then show ?thesis
    unfolding Let_def using texts each once by blast
qed


theorem match_ocr_to_pdf_lines_spec_witness:
  "match_ocr_to_pdf_lines exact_ratio ocr_example pdf_example =
     [\<lparr>text' = ''Fearless,'', is_bold = False, is_italic = True\<rparr>,
      \<lparr>text' = ''  '', is_bold = False, is_italic = False\<rparr>,
      \<lparr>text' = ''6G1 Rifle'', is_bold = False, is_italic = False\<rparr>,
      \<lparr>text' = ''Fearless'', is_bold = False, is_italic = False\<rparr>]
   \<and> consumed exact_ratio ocr_example pdf_example = [Some 1, None, Some 0, None]
   \<and> first_best (similarity exact_ratio ocr_example pdf_example 0) {} 2 1
   \<and> similarity exact_ratio ocr_example pdf_example 0 1 > 6 / 10"
proof -
  have run: "match_run exact_ratio pdf_example {} ocr_example =
    [(Some 1, \<lparr>text' = ''Fearless,'', is_bold = False, is_italic = True\<rparr>),
     (None, \<lparr>text' = ''  '', is_bold = False, is_italic = False\<rparr>),
     (Some 0, \<lparr>text' = ''6G1 Rifle'', is_bold = False, is_italic = False\<rparr>),
     (None, \<lparr>text' = ''Fearless'', is_bold = False, is_italic = False\<rparr>)]"
    by code_simp
  have js: "consumed exact_ratio ocr_example pdf_example = [Some 1, None, Some 0, None]"
    by (simp add: consumed_def run)
  have out: "match_ocr_to_pdf_lines exact_ratio ocr_example pdf_example =
     [\<lparr>text' = ''Fearless,'', is_bold = False, is_italic = True\<rparr>,
      \<lparr>text' = ''  '', is_bold = False, is_italic = False\<rparr>,
      \<lparr>text' = ''6G1 Rifle'', is_bold = False, is_italic = False\<rparr>,
      \<lparr>text' = ''Fearless'', is_bold = False, is_italic = False\<rparr>]"
    by (simp add: match_ocr_to_pdf_lines_def run)
  have "0 < length ocr_example" by (simp add: ocr_example_def)
  with match_ocr_to_pdf_lines_spec [of exact_ratio ocr_example pdf_example]
  have "case consumed exact_ratio ocr_example pdf_example ! 0 of
               Some j \<Rightarrow>
                 py_strip (ocr_example ! 0) \<noteq> []
                 \<and> first_best (similarity exact_ratio ocr_example pdf_example 0)
                       (consumed_before (consumed exact_ratio ocr_example pdf_example) 0)
                       (length pdf_example) j
                 \<and> similarity exact_ratio ocr_example pdf_example 0 j > 6 / 10
                 \<and> is_bold (match_ocr_to_pdf_lines exact_ratio ocr_example pdf_example ! 0) =
                     is_bold (pdf_example ! j)
                 \<and> is_italic (match_ocr_to_pdf_lines exact_ratio ocr_example pdf_example ! 0) =
                     is_italic (pdf_example ! j)
             | None \<Rightarrow>
                 \<not> is_bold (match_ocr_to_pdf_lines exact_ratio ocr_example pdf_example ! 0)
                 \<and> \<not> is_italic (match_ocr_to_pdf_lines exact_ratio ocr_example pdf_example ! 0)
                 \<and> (py_strip (ocr_example ! 0) = []
                      \<or> (\<forall>k<length pdf_example.
                             k \<notin> consumed_before (consumed exact_ratio ocr_example pdf_example) 0 \<longrightarrow>
                             similarity exact_ratio ocr_example pdf_example 0 k \<le> 6 / 10))"
    unfolding Let_def by blast
  then have "first_best (similarity exact_ratio ocr_example pdf_example 0)
                 (consumed_before [Some 1, None, Some 0, None] 0) (length pdf_example) 1
             \<and> similarity exact_ratio ocr_example pdf_example 0 1 > 6 / 10"
    by (simp add: js)
  moreover have "length pdf_example = 2" by (simp add: pdf_example_def)
  ultimately show ?thesis using js out by (simp only: consumed_before_0 simp_thms)
qed

section \<open>Slugs and the final de-duplication\<close>

lemma rep_greedy_all_gen:
  assumes g: "\<And>p x xs c. g (p, x # xs, c) = (if f x then [(Some x, xs, c)] else [])"
    and g0: "\<And>p c. g (p, [], c) = []"
  shows "list_all f s \<Longrightarrow> length s \<le> n \<Longrightarrow>
   \<exists>rest. rep_greedy g n (p, s, c) = (if s = [] then p else Some (last s), [], c) # rest"
proof (induction n arbitrary: s p)
  case 0
  then show ?case by simp
next
  case (Suc n)
  show ?case
  proof (cases s)
    case Nil
    then show ?thesis by (simp add: g0)
  next
    case (Cons x xs)
    then have "list_all f xs" "length xs \<le> n" "f x" using Suc.prems by simp_all
    from Suc.IH [OF this(1,2), of "Some x"] obtain rest where
      "rep_greedy g n (Some x, xs, c) = (if xs = [] then Some x else Some (last xs), [], c) # rest"
      by blast
    then show ?thesis using Cons \<open>f x\<close> by (simp add: g)
  qed
qed

lemma rep_greedy_all:
  "list_all f s \<Longrightarrow> length s \<le> n \<Longrightarrow>
   \<exists>rest. rep_greedy (ms (Sym f)) n (p, s, c) = (if s = [] then p else Some (last s), [], c) # rest"
  by (rule rep_greedy_all_gen) simp_all

lemma match_plus_all:
  assumes "list_all f s" "s \<noteq> []"
  shows "\<exists>m. match_at (plus (Sym f)) 0 p s = Some m \<and> m_rest m = [] \<and> m_prev m = Some (last s)"
proof -
  obtain x xs where s: "s = x # xs" using assms(2) by (cases s) auto
  then have "f x" "list_all f xs" using assms(1) by simp_all
  from rep_greedy_all [OF this(2) order_refl, of "Some x" "[]"] obtain rest where
    "rep_greedy (ms (Sym f)) (length xs) (Some x, xs, []) =
       (if xs = [] then Some x else Some (last xs), [], []) # rest" by blast
  then show ?thesis using s \<open>f x\<close>
    by (simp add: match_at_def plus_def mk_match_def)
qed

lemma match_plus_Nil: "match_at (plus (Sym f)) 0 p [] = None"
  by (simp add: match_at_def plus_def)

lemma sub_plus_all:
  assumes "list_all f s" "s \<noteq> []"
  shows "re_sub (plus (Sym f)) [TLit t] s = t"
proof -
  obtain m where m: "match_at (plus (Sym f)) 0 None s = Some m" "m_rest m = []"
    using match_plus_all [OF assms] by blast
  have "sub_from (plus (Sym f)) [TLit t] None s =
        expand [TLit t] m @ sub_from (plus (Sym f)) [TLit t] (m_prev m) []"
    using m assms(2) by (subst sub_from.simps) simp
  also have "\<dots> = t"
    by (subst sub_from.simps) (simp add: match_plus_Nil expand_def)
  finally show ?thesis by (simp add: re_sub_def)
qed

lemma lower_not_slug:
  "\<not> is_ascii_alnum c \<Longrightarrow> not_slug_char (lower_char c)"
  by (auto simp: is_ascii_alnum_def not_slug_char_def lower_char_def is_ascii_lower_def
      is_ascii_upper_def is_decimal_def Let_def cp_def)

lemma slugify_no_alnum:
  assumes "\<forall>c\<in>set (concat (map nfkd_ascii s)). \<not> is_ascii_alnum c"
  shows "slugify s = []"
proof (cases "concat (map nfkd_ascii s) = []")
  case True
  have "re_sub (plus (Sym not_slug_char)) [TLit ''-''] [] = []"
    by (simp add: re_sub_def match_plus_Nil sub_from.simps [of _ _ _ "[]"])
  then show ?thesis
    unfolding slugify_def Let_def True
    by (simp add: py_lower_def strip_char_def rstrip_char_def)
next
  case False
  let ?s = "py_lower (concat (map nfkd_ascii s))"
  have "list_all not_slug_char ?s" "?s \<noteq> []"
    using assms False by (auto simp: py_lower_def list_all_iff lower_not_slug simp del: set_concat)
  then have "re_sub (plus (Sym not_slug_char)) [TLit ''-''] ?s = ''-''"
    by (rule sub_plus_all)
  then show ?thesis by (simp add: slugify_def Let_def strip_char_def rstrip_char_def)
qed

lemma dedupe_loop_eq:
  "dedupe_loop units seen out =
     out @ map ((!) units)
       (filter (\<lambda>i. id' (units ! i) \<noteq> [] \<and> id' (units ! i) \<notin> seen
                     \<and> (\<forall>k<i. id' (units ! k) \<noteq> id' (units ! i)))
          [0..<length units])"
proof (induction units arbitrary: seen out)
  case Nil
  then show ?case by simp
next
  case (Cons u units)
  define P where "P = (\<lambda>sn (us :: unit_record list) i. id' (us ! i) \<noteq> [] \<and> id' (us ! i) \<notin> (sn :: string set)
                     \<and> (\<forall>k<i. id' (us ! k) \<noteq> id' (us ! i)))"
  have IH: "dedupe_loop units sn ot = ot @ map ((!) units) (filter (P sn units) [0..<length units])"
    for sn ot
    unfolding P_def by (rule Cons.IH)
  have upt: "[0..<length (u # units)] = 0 # map Suc [0..<length units]"
    by (simp add: upt_conv_Cons map_Suc_upt del: upt_Suc)
  have shift: "filter (P seen (u # units)) (map Suc [0..<length units]) =
               map Suc (filter (P sn units) [0..<length units])"
    if h: "\<And>i. P seen (u # units) (Suc i) = P sn units i" for sn
  proof -
    have "filter (P seen (u # units)) (map Suc [0..<length units]) =
          map Suc (filter (\<lambda>i. P seen (u # units) (Suc i)) [0..<length units])"
      by (simp add: filter_map comp_def)
    then show ?thesis by (simp only: h)
  qed
  have nths: "map ((!) (u # units)) (map Suc is) = map ((!) units) is" for "is"
    by simp
  show ?case
  proof (cases "id' u = [] \<or> id' u \<in> seen")
    case True
    have p0: "\<not> P seen (u # units) 0" unfolding P_def using True by auto
    have "P seen (u # units) (Suc i) = P seen units i" for i
      unfolding P_def using True by (auto simp: less_Suc_eq_0_disj)
    from shift [of seen, OF this] have
      "filter (P seen (u # units)) [0..<length (u # units)] =
       map Suc (filter (P seen units) [0..<length units])"
      by (simp only: upt filter.simps p0 if_False)
    then have "map ((!) (u # units)) (filter (P seen (u # units)) [0..<length (u # units)]) =
       map ((!) units) (filter (P seen units) [0..<length units])"
      by (simp only: nths)
    moreover have "dedupe_loop (u # units) seen out = dedupe_loop units seen out"
      using True by (simp add: Let_def)
    ultimately have "dedupe_loop (u # units) seen out =
        out @ map ((!) (u # units)) (filter (P seen (u # units)) [0..<length (u # units)])"
      by (simp only: IH)
    then show ?thesis unfolding P_def .
  next
    case False
    have p0: "P seen (u # units) 0" unfolding P_def using False by auto
    have "P seen (u # units) (Suc i) = P (insert (id' u) seen) units i" for i
      unfolding P_def by (auto simp: less_Suc_eq_0_disj)
    from shift [of "insert (id' u) seen", OF this] have
      "filter (P seen (u # units)) [0..<length (u # units)] =
       0 # map Suc (filter (P (insert (id' u) seen) units) [0..<length units])"
      by (simp only: upt filter.simps p0 if_True)
    then have "map ((!) (u # units)) (filter (P seen (u # units)) [0..<length (u # units)]) =
       u # map ((!) units) (filter (P (insert (id' u) seen) units) [0..<length units])"
      by (simp only: nths list.map nth_Cons_0)
    moreover have "dedupe_loop (u # units) seen out =
       dedupe_loop units (insert (id' u) seen) (out @ [u])"
      using False by (simp add: Let_def)
    ultimately have "dedupe_loop (u # units) seen out =
        out @ map ((!) (u # units)) (filter (P seen (u # units)) [0..<length (u # units)])"
      by (simp only: IH append_assoc append_Cons append_Nil)
    then show ?thesis unfolding P_def .
  qed
qed

lemma dedupe_units_eq:
  "dedupe_units units =
     map ((!) units)
       (filter (\<lambda>i. id' (units ! i) \<noteq> [] \<and> (\<forall>k<i. id' (units ! k) \<noteq> id' (units ! i)))
          [0..<length units])"
  unfolding dedupe_units_def dedupe_loop_eq by simp

lemma dedupe_units_nonempty: "u \<in> set (dedupe_units units) \<Longrightarrow> id' u \<noteq> []"
  unfolding dedupe_units_eq by auto

lemma dedupe_units_distinct: "distinct (map id' (dedupe_units units))"
proof -
  let ?P = "\<lambda>i. id' (units ! i) \<noteq> [] \<and> (\<forall>k<i. id' (units ! k) \<noteq> id' (units ! i))"
  let ?is = "filter ?P [0..<length units]"
  have "inj_on (\<lambda>i. id' (units ! i)) (set ?is)"
  proof (rule inj_onI)
    fix i j assume i: "i \<in> set ?is" and j: "j \<in> set ?is"
      and e: "id' (units ! i) = id' (units ! j)"
    show "i = j"
    proof (cases i j rule: linorder_cases)
      case less
      then show ?thesis using j e by auto
    next
      case greater
      then show ?thesis using i e by auto
    qed simp
  qed
  then have "distinct (map (\<lambda>i. id' (units ! i)) ?is)"
    by (simp add: distinct_map)
  moreover have "map id' (dedupe_units units) = map (\<lambda>i. id' (units ! i)) ?is"
    unfolding dedupe_units_eq by (simp add: comp_def)
  ultimately show ?thesis by simp
qed

text \<open>
  C10, as stated, fails: a display name can hold no ASCII alphanumeric character and still
  get a non-empty slug, because \<^verbatim>\<open>slugify\<close> first decomposes accented letters. The name
  made of the one character U+00C9 (E with acute accent) gets the id \<^verbatim>\<open>e\<close>, and a unit of
  that name is kept by the de-duplication.
\<close>

theorem slugify_accented_counterexample:
  "list_all (\<lambda>c. \<not> is_ascii_alnum c) [CHR 0xC9]
   \<and> slugify [CHR 0xC9] = ''e''
   \<and> dedupe_units [example_unit (slugify [CHR 0xC9]) [CHR 0xC9]] = [example_unit ''e'' [CHR 0xC9]]"
proof -
  have "list_all (\<lambda>c. \<not> is_ascii_alnum c) [CHR 0xC9]" by code_simp
  moreover have s: "slugify [CHR 0xC9] = ''e''" by code_simp
  moreover have "dedupe_units [example_unit ''e'' [CHR 0xC9]] = [example_unit ''e'' [CHR 0xC9]]"
    by (simp add: dedupe_units_def example_unit_def Let_def)
  ultimately show ?thesis by simp
qed

text \<open>
  C10, amended. If the characters that remain of a display name after NFKD normalisation
  and the removal of non-ASCII characters include no ASCII alphanumeric character, then
  \<^verbatim>\<open>slugify\<close> yields the empty string; the final de-duplication drops every unit whose id
  is empty; every unit of the returned collection has a non-empty id and the ids are
  pairwise distinct; and the collection is the list of first occurrences, in input order:
  the units with a non-empty id that no earlier unit has.
\<close>

theorem slug_empty_dropped_ids_distinct:
  "(list_all (\<lambda>c. \<not> is_ascii_alnum c) (concat (map nfkd_ascii nm)) \<longrightarrow> slugify nm = [])
   \<and> (\<forall>u\<in>set units. id' u = [] \<longrightarrow> u \<notin> set (dedupe_units units))
   \<and> (\<forall>u\<in>set (dedupe_units units). id' u \<noteq> [])
   \<and> distinct (map id' (dedupe_units units))
   \<and> dedupe_units units =
       map ((!) units)
         (filter (\<lambda>i. id' (units ! i) \<noteq> [] \<and> (\<forall>k<i. id' (units ! k) \<noteq> id' (units ! i)))
            [0..<length units])"
proof -
  have "slugify nm = []" if "list_all (\<lambda>c. \<not> is_ascii_alnum c) (concat (map nfkd_ascii nm))"
    using that by (intro slugify_no_alnum) (simp add: list_all_iff del: set_concat)
  moreover have "u \<notin> set (dedupe_units units)" if "id' u = []" for u
    using that dedupe_units_nonempty by blast
  ultimately show ?thesis
    using dedupe_units_nonempty dedupe_units_distinct dedupe_units_eq by blast
qed

theorem slug_empty_dropped_ids_distinct_witness:
  "list_all (\<lambda>c. \<not> is_ascii_alnum c) (concat (map nfkd_ascii ''- ?''))
   \<and> slugify ''- ?'' = []
   \<and> example_unit [] ''- ?'' \<in> set [example_unit ''a'' ''A'', example_unit [] ''- ?'',
                                       example_unit ''a'' ''a'', example_unit ''b'' ''B'']
   \<and> example_unit [] ''- ?'' \<notin> set (dedupe_units [example_unit ''a'' ''A'', example_unit [] ''- ?'',
                                       example_unit ''a'' ''a'', example_unit ''b'' ''B''])
   \<and> dedupe_units [example_unit ''a'' ''A'', example_unit [] ''- ?'',
                     example_unit ''a'' ''a'', example_unit ''b'' ''B''] =
       [example_unit ''a'' ''A'', example_unit ''b'' ''B'']"
proof -
  let ?units = "[example_unit ''a'' ''A'', example_unit [] ''- ?'',
                 example_unit ''a'' ''a'', example_unit ''b'' ''B'']"
  note spec = slug_empty_dropped_ids_distinct [of "''- ?''" ?units]
  have h: "list_all (\<lambda>c. \<not> is_ascii_alnum c) (concat (map nfkd_ascii ''- ?''))" by code_simp
  then have e: "slugify ''- ?'' = []" using spec by blast
  have m: "example_unit [] ''- ?'' \<in> set ?units" by simp
  have i: "id' (example_unit [] ''- ?'') = []" by (simp add: example_unit_def)
  have d: "example_unit [] ''- ?'' \<notin> set (dedupe_units ?units)" using spec m i by blast
  have r: "dedupe_units ?units = [example_unit ''a'' ''A'', example_unit ''b'' ''B'']"
    by (simp add: dedupe_units_def example_unit_def Let_def)
  show ?thesis using h e m d r by simp
qed

section \<open>The line-level OCR error corrector\<close>

text \<open>
  C4. The corrector is not idempotent. On the line \<^verbatim>\<open>x lnf lnf y\<close> the replacement of
  \<^verbatim>\<open>" lnf "\<close> by \<^verbatim>\<open>" Inf "\<close> takes the first occurrence together with the space that the
  second one needs, so one pass leaves the second word, and a second pass corrects it.
\<close>

theorem fix_ocr_errors_contextual_second_pass:
  "fix_ocr_errors_contextual ''x lnf lnf y'' = ''x Inf lnf y''
   \<and> fix_ocr_errors_contextual (fix_ocr_errors_contextual ''x lnf lnf y'') = ''x Inf Inf y''"
proof -
  have a: "fix_ocr_errors_contextual ''x lnf lnf y'' = ''x Inf lnf y''" by code_simp
  have b: "fix_ocr_errors_contextual ''x Inf lnf y'' = ''x Inf Inf y''" by code_simp
  show ?thesis by (simp only: a b simp_thms)
qed

section \<open>Header and stat block\<close>

lemma ebind_Inr_iff: "ebind m f = Inr y \<longleftrightarrow> (\<exists>x. m = Inr x \<and> f x = Inr y)"
  by (cases m) (auto simp: ebind_def)

lemma stats_toughness_single:
  assumes "stats_of_match m = Inr (ut, st)" "truthy (group m 7)"
    "\<not> (truthy (group m 8) \<and> truthy (group m 9))"
  shows "\<exists>t. parse_toughness_value (group_str m 7) = Inr t \<and> toughness st = Some (Toughness t)"
  using assms unfolding stats_of_match_def Let_def
  by (auto simp: ebind_Inr_iff)

lemma stats_toughness_triple:
  assumes "stats_of_match m = Inr (ut, st)" "truthy (group m 7)"
    "truthy (group m 8)" "truthy (group m 9)"
  shows "\<exists>f s r. parse_toughness_value (group_str m 7) = Inr f
            \<and> parse_toughness_value (group_str m 8) = Inr s
            \<and> parse_toughness_value (group_str m 9) = Inr r
            \<and> toughness st = Some (Directional f s r)"
  using assms unfolding stats_of_match_def Let_def
  by (auto simp: ebind_Inr_iff)

text \<open>
  C6. The one-line header \<^verbatim>\<open>GRENADIERS - 120 pts\<close> gives the name \<^verbatim>\<open>GRENADIERS\<close> and the
  integer 120, and \<^verbatim>\<open>RAIDERS - 0/20 pts\<close> gives the string \<^verbatim>\<open>0/20\<close>; so do the split forms
  with the dash and the points on one line. But when the name, the dash and the points
  stand on three lines, the points are searched with a pattern that has no slash, and the
  split cost \<^verbatim>\<open>0/20\<close> becomes the integer 20.
\<close>

theorem find_header_split_cost_on_three_lines:
  "find_header [''GRENADIERS - 120 pts''] = Inr (Some (''GRENADIERS'', PInt 120, 0))
   \<and> find_header [''RAIDERS - 0/20 pts''] = Inr (Some (''RAIDERS'', PStr ''0/20'', 0))
   \<and> find_header [''RAIDERS'', ''- 0/20 pts'', ''x''] = Inr (Some (''RAIDERS'', PStr ''0/20'', 1))
   \<and> find_header [''RAIDERS - 0/20'', ''pts''] = Inr (Some (''RAIDERS'', PStr ''0/20'', 1))
   \<and> find_header [''RAIDERS'', ''-'', ''0/20 pts''] = Inr (Some (''RAIDERS'', PInt 20, 2))"
proof -
  have a: "find_header [''GRENADIERS - 120 pts''] = Inr (Some (''GRENADIERS'', PInt 120, 0))"
    by code_simp
  have b: "find_header [''RAIDERS - 0/20 pts''] = Inr (Some (''RAIDERS'', PStr ''0/20'', 0))"
    by code_simp
  have c: "find_header [''RAIDERS'', ''- 0/20 pts'', ''x''] = Inr (Some (''RAIDERS'', PStr ''0/20'', 1))"
    by code_simp
  have d: "find_header [''RAIDERS - 0/20'', ''pts''] = Inr (Some (''RAIDERS'', PStr ''0/20'', 1))"
    by code_simp
  have e: "find_header [''RAIDERS'', ''-'', ''0/20 pts''] = Inr (Some (''RAIDERS'', PInt 20, 2))"
    by code_simp
  show ?thesis by (simp only: a b c d e simp_thms)
qed

text \<open>
  C7. The line \<^verbatim>\<open>Inf(S), M4", Q3, T1/1/1\<close> matches the stat grammar and gives the unit class
  \<^verbatim>\<open>Inf(S)\<close>, movement 4, quality 3 and the toughness of front 1, side 1 and rear 1, all
  integers. Whenever a stat line is read, a toughness with a side and a rear value gives
  the three values, and a single toughness value gives a scalar.
\<close>

theorem stat_block_parsing:
  "map_option stats_of_match (re_match STAT_RE stat_example) =
     Some (Inr (''Inf(S)'',
                \<lparr>movement = 4, quality = PInt 3, height = None, spottingDistance = None,
                 command = None, evasion = None,
                 toughness = Some (Directional (Some (PInt 1)) (Some (PInt 1)) (Some (PInt 1)))\<rparr>))
   \<and> map_option stats_of_match (re_match STAT_RE air_stat_example) =
     Some (Inr (''Air(CAP)'',
                \<lparr>movement = 10, quality = PInt 3, height = None, spottingDistance = None,
                 command = None, evasion = None,
                 toughness = Some (Toughness (Some (PInt 2)))\<rparr>))
   \<and> (\<forall>m ut st. stats_of_match m = Inr (ut, st) \<and> truthy (group m 7) \<longrightarrow>
         (if truthy (group m 8) \<and> truthy (group m 9)
          then \<exists>f s r. parse_toughness_value (group_str m 7) = Inr f
                 \<and> parse_toughness_value (group_str m 8) = Inr s
                 \<and> parse_toughness_value (group_str m 9) = Inr r
                 \<and> toughness st = Some (Directional f s r)
          else \<exists>t. parse_toughness_value (group_str m 7) = Inr t
                 \<and> toughness st = Some (Toughness t)))"
proof -
  have a: "map_option stats_of_match (re_match STAT_RE stat_example) =
     Some (Inr (''Inf(S)'',
                \<lparr>movement = 4, quality = PInt 3, height = None, spottingDistance = None,
                 command = None, evasion = None,
                 toughness = Some (Directional (Some (PInt 1)) (Some (PInt 1)) (Some (PInt 1)))\<rparr>))"
    by code_simp
  have b: "map_option stats_of_match (re_match STAT_RE air_stat_example) =
     Some (Inr (''Air(CAP)'',
                \<lparr>movement = 10, quality = PInt 3, height = None, spottingDistance = None,
                 command = None, evasion = None,
                 toughness = Some (Toughness (Some (PInt 2)))\<rparr>))"
    by code_simp
  show ?thesis
    using a b stats_toughness_single stats_toughness_triple by (simp only: simp_thms) meson
qed

theorem stat_block_parsing_witness:
  "stats_of_match (the (re_match STAT_RE air_stat_example)) =
     Inr (''Air(CAP)'',
          \<lparr>movement = 10, quality = PInt 3, height = None, spottingDistance = None,
           command = None, evasion = None, toughness = Some (Toughness (Some (PInt 2)))\<rparr>)
   \<and> truthy (group (the (re_match STAT_RE air_stat_example)) 7)
   \<and> \<not> truthy (group (the (re_match STAT_RE air_stat_example)) 8)
   \<and> (\<exists>t. parse_toughness_value (group_str (the (re_match STAT_RE air_stat_example)) 7) = Inr t
          \<and> toughness \<lparr>movement = 10, quality = PInt 3, height = None, spottingDistance = None,
                 command = None, evasion = None, toughness = Some (Toughness (Some (PInt 2)))\<rparr>
              = Some (Toughness t))"
proof -
  let ?m = "the (re_match STAT_RE air_stat_example)"
  let ?st = "\<lparr>movement = 10, quality = PInt 3, height = None, spottingDistance = None,
           command = None, evasion = None, toughness = Some (Toughness (Some (PInt 2)))\<rparr>"
  have s: "stats_of_match ?m = Inr (''Air(CAP)'', ?st)" by code_simp
  have t7: "truthy (group ?m 7)" by code_simp
  have t8: "\<not> truthy (group ?m 8)" by code_simp
  from stat_block_parsing s t7
  have "if truthy (group ?m 8) \<and> truthy (group ?m 9)
          then \<exists>f s r. parse_toughness_value (group_str ?m 7) = Inr f
                 \<and> parse_toughness_value (group_str ?m 8) = Inr s
                 \<and> parse_toughness_value (group_str ?m 9) = Inr r
                 \<and> toughness ?st = Some (Directional f s r)
          else \<exists>t. parse_toughness_value (group_str ?m 7) = Inr t
                 \<and> toughness ?st = Some (Toughness t)"
    by blast
  then have "\<exists>t. parse_toughness_value (group_str ?m 7) = Inr t
                 \<and> toughness ?st = Some (Toughness t)"
    using t8 by (simp only: simp_thms if_False)
  then show ?thesis using s t7 t8 by blast
qed

end
